theory Spec2Isabelle
  imports Main "HOL-Library.Word"
begin

section \<open>Values, errors and the session state of qbs.go\<close>

text \<open>
  The file \<^verbatim>\<open>qbs.go\<close> is the session type \<^verbatim>\<open>Qbs\<close> of an object-relational
  mapper. Its methods talk to three collaborators whose code is elsewhere: the database
  driver (\<^verbatim>\<open>database/sql\<close>), the \<^verbatim>\<open>Dialect\<close> interface and the reflection
  helpers of the package (\<^verbatim>\<open>structPtrToModel\<close>, \<^verbatim>\<open>snakeToUpperCamel\<close>, ...).
  The embedding passes the session state explicitly, takes every answer of a collaborator
  as an argument of the operation that asks for it, and records the calls made to
  collaborators in a list of events returned next to the result (for a statement of the
  dialect: the criteria pointer and object of the session at the call, and the answer).
  Panics are outcomes. The dialect of the session is the argument \<open>d\<close> of the
  operations. Logging (\<^verbatim>\<open>q.log\<close>) only prints and is left out; the database
  handle \<^verbatim>\<open>q.Db\<close> is taken to be open. The criteria of the session is a pointer:
  the state holds the criteria objects by address, and \<^verbatim>\<open>Reset\<close> allocates a new
  one.
\<close>

datatype error = ErrNoRows | Err string

datatype panic =
    PanicMsg string
  | PanicErr error
  | NilDeref
  | ReflectPanic string

datatype 'a outcome = Panic panic | Return 'a

datatype gotype = TInt64 | TString | TBool | TTime | TStructPtr "(string \<times> gotype) list"

datatype govalue =
    VInt64 "64 word"
  | VString string
  | VBool bool
  | VTime nat
  | VStructPtr "(string \<times> gotype) list" "(string \<times> govalue) list option"

type_synonym gostruct = "(string \<times> govalue) list"

datatype dvalue = DInt "64 word" | DBytes string | DBool bool | DTime nat

text \<open>Modelled from the spec: Condition (an expression with \<^verbatim>\<open>?\<close> placeholders and
  its bound values, and the AND-combination wrapping both sides, first operand first).\<close>

datatype Condition = Cond string "govalue list" | CondAnd Condition Condition

definition NewCondition :: "string \<Rightarrow> govalue list \<Rightarrow> Condition" where
  "NewCondition expr args = Cond expr args"

definition AndCondition :: "Condition \<Rightarrow> Condition \<Rightarrow> Condition" where
  "AndCondition c sub = CondAnd c sub"

fun condition_args :: "Condition \<Rightarrow> govalue list" where
  "condition_args (Cond e args) = args"
| "condition_args (CondAnd a b) = condition_args a @ condition_args b"

record modelField =
  name :: string
  camelName :: string
  value' :: govalue

record model =
  table :: string
  pk :: "modelField option"
  fields' :: "modelField list"

record criteria =
  model :: "model option"
  condition :: "Condition option"
  limit :: int
  offset :: int
  orderBys :: "(string \<times> bool) list"
  omitFields :: "string list"
  omitJoin :: bool

definition new_criteria :: criteria where
  "new_criteria = \<lparr>model = None, condition = None, limit = 0, offset = 0,
     orderBys = [], omitFields = [], omitJoin = False\<rparr>"

record Qbs =
  Tx :: bool
  criteria :: nat
  firstTxError :: "error option"

record world =
  qbs :: Qbs
  heap :: "nat \<Rightarrow> criteria"
  fresh :: nat

datatype event =
    EvPrepare bool string
  | EvStmtQuery "govalue list"
  | EvStmtExec "govalue list"
  | EvQuery bool string "govalue list"
  | EvQueryRow bool string "govalue list"
  | EvQuerySql criteria
  | EvUpdate nat criteria "64 word \<times> error option"
  | EvInsert nat criteria "64 word \<times> error option"
  | EvDelete nat criteria "64 word \<times> error option"
  | EvValidate

definition cur :: "world \<Rightarrow> criteria" where
  "cur w = heap w (criteria (qbs w))"

definition set_cur :: "(criteria \<Rightarrow> criteria) \<Rightarrow> world \<Rightarrow> world" where
  "set_cur f w = w\<lparr>heap := (heap w)(criteria (qbs w) := f (cur w))\<rparr>"

definition Reset :: "world \<Rightarrow> world" where
  "Reset w = w\<lparr>qbs := (qbs w)\<lparr>criteria := fresh w\<rparr>,
               heap := (heap w)(fresh w := new_criteria),
               fresh := Suc (fresh w)\<rparr>"

definition updateTxError :: "error option \<Rightarrow> world \<Rightarrow> error option \<times> world" where
  "updateTxError e w =
     (e, if e \<noteq> None \<and> firstTxError (qbs w) = None
         then w\<lparr>qbs := (qbs w)\<lparr>firstTxError := e\<rparr>\<rparr> else w)"

section \<open>Collaborators\<close>

text \<open>
  A result row as the driver hands it to \<^verbatim>\<open>scanRows\<close>: either the error of
  \<^verbatim>\<open>rows.Scan\<close>, or the columns of \<^verbatim>\<open>rows.Columns()\<close> each with the value
  scanned into its holder (\<open>None\<close> is SQL NULL).
\<close>

type_synonym row = "error + (string \<times> dvalue option) list"

datatype sqlresult = SqlResult "64 word" "64 word"

text \<open>
  The \<^verbatim>\<open>Dialect\<close> interface, as far as \<^verbatim>\<open>qbs.go\<close> calls it. The methods
  \<^verbatim>\<open>insert\<close>, \<^verbatim>\<open>update\<close> and \<^verbatim>\<open>delete\<close> receive the session itself, so
  they are transformers of the whole state, each giving its two results (the generated id
  or the affected-row count, and the error).
\<close>

record Dialect =
  quote :: "string \<Rightarrow> string"
  querySql :: "criteria \<Rightarrow> string \<times> govalue list"
  substituteMarkers :: "string \<Rightarrow> string"
  setModelValue :: "dvalue \<Rightarrow> govalue \<Rightarrow> error + govalue"
  insert' :: "world \<Rightarrow> (64 word \<times> error option) \<times> world"
  update' :: "world \<Rightarrow> (64 word \<times> error option) \<times> world"
  delete' :: "world \<Rightarrow> (64 word \<times> error option) \<times> world"

section \<open>Transactions and the sticky first error\<close>

definition New :: "world" where
  "New = Reset \<lparr>qbs = \<lparr>Tx = False, criteria = 0, firstTxError = None\<rparr>,
                 heap = (\<lambda>_. new_criteria), fresh = 0\<rparr>"

definition Begin :: "error option \<Rightarrow> world \<Rightarrow> unit outcome \<times> world" where
  "Begin bres w =
     (if Tx (qbs w) then (Panic (PanicMsg ''cannot start nested transaction''), w)
      else (case bres of
              None \<Rightarrow> (Return (), w\<lparr>qbs := (qbs w)\<lparr>Tx := True\<rparr>\<rparr>)
            | Some e \<Rightarrow> (Panic (PanicErr e), w\<lparr>qbs := (qbs w)\<lparr>Tx := False\<rparr>\<rparr>)))"

definition Commit :: "error option \<Rightarrow> world \<Rightarrow> error option outcome \<times> world" where
  "Commit cres w =
     (if \<not> Tx (qbs w) then (Panic NilDeref, w)
      else (let w1 = snd (updateTxError cres w);
                w2 = w1\<lparr>qbs := (qbs w1)\<lparr>Tx := False\<rparr>\<rparr>
            in (Return (firstTxError (qbs w2)), w2)))"

definition Rollback :: "error option \<Rightarrow> world \<Rightarrow> error option outcome \<times> world" where
  "Rollback rres w =
     (if \<not> Tx (qbs w) then (Panic NilDeref, w)
      else (let w1 = w\<lparr>qbs := (qbs w)\<lparr>Tx := False\<rparr>\<rparr>;
                (e, w2) = updateTxError rres w1
            in (Return e, w2)))"

definition Prepare :: "error option \<Rightarrow> string \<Rightarrow> world \<Rightarrow> error option \<times> world \<times> event list" where
  "Prepare pres query w =
     (pres, snd (updateTxError pres w), [EvPrepare (Tx (qbs w)) (query @ '';'')])"

definition err_of :: "error + 'a \<Rightarrow> error option" where
  "err_of r = (case r of Inl e \<Rightarrow> Some e | Inr _ \<Rightarrow> None)"

definition Query :: "Dialect \<Rightarrow> error + row list \<Rightarrow> string \<Rightarrow> govalue list \<Rightarrow> world
    \<Rightarrow> (error + row list) \<times> world \<times> event list" where
  "Query d qres query args w =
     (qres, snd (updateTxError (err_of qres) w),
      [EvQuery (Tx (qbs w)) (substituteMarkers d query) args])"

definition QueryRow :: "Dialect \<Rightarrow> string \<Rightarrow> govalue list \<Rightarrow> world \<Rightarrow> world \<times> event list" where
  "QueryRow d query args w = (w, [EvQueryRow (Tx (qbs w)) (substituteMarkers d query) args])"

definition Exec :: "Dialect \<Rightarrow> error option \<Rightarrow> error + sqlresult \<Rightarrow> string \<Rightarrow> govalue list \<Rightarrow> world
    \<Rightarrow> (sqlresult option \<times> error option) \<times> world \<times> event list" where
  "Exec d pres eres query args w =
     (let (err, w1, ev) = Prepare pres (substituteMarkers d query) w in
      if err \<noteq> None
      then (let (e, w2) = updateTxError err w1 in ((None, e), Reset w2, ev))
      else (case eres of
              Inl e \<Rightarrow> (let (e', w2) = updateTxError (Some e) w1
                        in ((None, e'), Reset w2, ev @ [EvStmtExec args]))
            | Inr r \<Rightarrow> ((Some r, None), Reset w1, ev @ [EvStmtExec args])))"

definition ContainsValue :: "Dialect \<Rightarrow> error option \<Rightarrow> string \<Rightarrow> string \<Rightarrow> govalue \<Rightarrow> world
    \<Rightarrow> bool \<times> world \<times> event list" where
  "ContainsValue d sres tbl column v w =
     (let quotedColumn = quote d column;
          quotedTable = quote d tbl;
          query = ''SELECT '' @ quotedColumn @ '' FROM '' @ quotedTable @ '' WHERE '' @ quotedColumn @ '' = ?'';
          (w1, ev) = QueryRow d query [v] w
      in (sres = None, snd (updateTxError sres w1), ev))"

section \<open>Criteria builders\<close>

definition Where :: "string \<Rightarrow> govalue list \<Rightarrow> world \<Rightarrow> world" where
  "Where expr args w = set_cur (\<lambda>c. c\<lparr>condition := Some (NewCondition expr args)\<rparr>) w"

text \<open>Modelled from the spec: NewEqualCondition (an equality Condition from a plain
  column and value).\<close>

definition NewEqualCondition :: "string \<Rightarrow> govalue \<Rightarrow> Condition" where
  "NewEqualCondition column v = NewCondition (column @ '' = ?'') [v]"

definition WhereEqual :: "string \<Rightarrow> govalue \<Rightarrow> world \<Rightarrow> world" where
  "WhereEqual column v w = set_cur (\<lambda>c. c\<lparr>condition := Some (NewEqualCondition column v)\<rparr>) w"

definition Condition' :: "Condition option \<Rightarrow> world \<Rightarrow> world" where
  "Condition' c w = set_cur (\<lambda>k. k\<lparr>condition := c\<rparr>) w"

definition Limit :: "int \<Rightarrow> world \<Rightarrow> world" where
  "Limit n w = set_cur (\<lambda>c. c\<lparr>limit := n\<rparr>) w"

definition Offset :: "int \<Rightarrow> world \<Rightarrow> world" where
  "Offset n w = set_cur (\<lambda>c. c\<lparr>offset := n\<rparr>) w"

definition OrderBy :: "Dialect \<Rightarrow> string \<Rightarrow> world \<Rightarrow> world" where
  "OrderBy d path w = set_cur (\<lambda>c. c\<lparr>orderBys := orderBys c @ [(quote d path, False)]\<rparr>) w"

definition OrderByDesc :: "Dialect \<Rightarrow> string \<Rightarrow> world \<Rightarrow> world" where
  "OrderByDesc d path w = set_cur (\<lambda>c. c\<lparr>orderBys := orderBys c @ [(quote d path, True)]\<rparr>) w"

definition OmitFields :: "string list \<Rightarrow> world \<Rightarrow> world" where
  "OmitFields fieldName w = set_cur (\<lambda>c. c\<lparr>omitFields := fieldName\<rparr>) w"

definition OmitJoin :: "world \<Rightarrow> world" where
  "OmitJoin w = set_cur (\<lambda>c. c\<lparr>omitJoin := True\<rparr>) w"

section \<open>Reflection on the destination struct\<close>

text \<open>
  A struct is the list of its fields in declaration order. A field of pointer-to-struct type
  carries the declared fields of the pointee next to its value (\<open>None\<close> is the nil
  pointer). Fields of the other nilable kinds (maps, slices, interfaces, channels) are
  outside this embedding.
\<close>

fun zero :: "gotype \<Rightarrow> govalue" where
  "zero TInt64 = VInt64 0"
| "zero TString = VString []"
| "zero TBool = VBool False"
| "zero TTime = VTime 0"
| "zero (TStructPtr ty) = VStructPtr ty None"

definition zero_struct :: "(string \<times> gotype) list \<Rightarrow> gostruct" where
  "zero_struct ty = map (\<lambda>(n, t). (n, zero t)) ty"

fun isZero :: "govalue \<Rightarrow> bool" where
  "isZero (VInt64 i) = (i = 0)"
| "isZero (VString s) = (s = [])"
| "isZero (VBool b) = (\<not> b)"
| "isZero (VTime t) = (t = 0)"
| "isZero (VStructPtr ty p) = (p = None)"

definition FieldByName :: "gostruct \<Rightarrow> string \<Rightarrow> govalue option" where
  "FieldByName s n = map_of s n"

fun Set_field :: "string \<Rightarrow> govalue \<Rightarrow> gostruct \<Rightarrow> gostruct" where
  "Set_field n v [] = []"
| "Set_field n v ((k, x) # s) = (if k = n then (k, v) # s else (k, x) # Set_field n v s)"

text \<open>\<^verbatim>\<open>strings.Split\<close> for a non-empty separator: the pieces between the
  non-overlapping occurrences of the separator, found from the left.\<close>

function splitAcc :: "string \<Rightarrow> string \<Rightarrow> string \<Rightarrow> string list" where
  "splitAcc sep acc [] = [acc]"
| "splitAcc sep acc (c # cs) =
     (if sep \<noteq> [] \<and> take (length sep) (c # cs) = sep
      then acc # splitAcc sep [] (drop (length sep) (c # cs))
      else splitAcc sep (acc @ [c]) cs)"
  by pat_completeness auto
termination
  by (relation "measure (\<lambda>(sep, acc, s). length s)") (auto simp: neq_Nil_conv)

definition Split :: "string \<Rightarrow> string \<Rightarrow> string list" where
  "Split s sep = splitAcc sep [] s"

text \<open>Modelled from the spec: snakeToUpperCamel (snake_case column name to the camel-case
  struct field name: the first character of every underscore-separated segment in upper
  case, the underscores dropped).\<close>

definition upper :: "char \<Rightarrow> char" where
  "upper c =
     (case map_of (zip ''abcdefghijklmnopqrstuvwxyz'' ''ABCDEFGHIJKLMNOPQRSTUVWXYZ'') c of
        None \<Rightarrow> c
      | Some u \<Rightarrow> u)"

fun camelFrom :: "bool \<Rightarrow> string \<Rightarrow> string" where
  "camelFrom first [] = []"
| "camelFrom first (c # cs) =
     (if c = CHR ''_'' then camelFrom True cs
      else (if first then upper c else c) # camelFrom False cs)"

definition snakeToUpperCamel :: "string \<Rightarrow> string" where
  "snakeToUpperCamel s = camelFrom True s"

section \<open>Scanning result rows\<close>

text \<open>The body of the loop of \<^verbatim>\<open>scanRows\<close> for one column: its name and the value
  in its holder.\<close>

definition scanColumn :: "Dialect \<Rightarrow> string \<times> dvalue option \<Rightarrow> gostruct
    \<Rightarrow> error option outcome \<times> gostruct" where
  "scanColumn d col s =
     (case snd col of
        None \<Rightarrow> (Return None, s)
      | Some v \<Rightarrow>
          (case Split (fst col) ''___'' of
             [p0, p1] \<Rightarrow>
               (case FieldByName s (snakeToUpperCamel p0) of
                  None \<Rightarrow> (Panic (ReflectPanic ''call of reflect.Value.IsNil on zero Value''), s)
                | Some (VStructPtr ty ptr) \<Rightarrow>
                    (let sub = (case ptr of None \<Rightarrow> zero_struct ty | Some x \<Rightarrow> x);
                         s1 = Set_field (snakeToUpperCamel p0) (VStructPtr ty (Some sub)) s
                     in (case FieldByName sub (snakeToUpperCamel p1) of
                           None \<Rightarrow> (Return None, s1)
                         | Some old \<Rightarrow>
                             (case setModelValue d v old of
                                Inl e \<Rightarrow> (Return (Some e), s1)
                              | Inr new \<Rightarrow>
                                  (Return None,
                                   Set_field (snakeToUpperCamel p0)
                                     (VStructPtr ty (Some (Set_field (snakeToUpperCamel p1) new sub))) s))))
                | Some _ \<Rightarrow> (Panic (ReflectPanic ''call of reflect.Value.IsNil on a non-nilable Value''), s))
           | _ \<Rightarrow>
               (case FieldByName s (snakeToUpperCamel (fst col)) of
                  None \<Rightarrow> (Return None, s)
                | Some old \<Rightarrow>
                    (case setModelValue d v old of
                       Inl e \<Rightarrow> (Return (Some e), s)
                     | Inr new \<Rightarrow> (Return None, Set_field (snakeToUpperCamel (fst col)) new s)))))"

fun scanColumns :: "Dialect \<Rightarrow> (string \<times> dvalue option) list \<Rightarrow> gostruct
    \<Rightarrow> error option outcome \<times> gostruct" where
  "scanColumns d [] s = (Return None, s)"
| "scanColumns d (col # cols) s =
     (case scanColumn d col s of
        (Return None, s') \<Rightarrow> scanColumns d cols s'
      | r \<Rightarrow> r)"

definition scanRows :: "Dialect \<Rightarrow> row \<Rightarrow> gostruct \<Rightarrow> error option outcome \<times> gostruct" where
  "scanRows d r rowValue =
     (case r of
        Inl e \<Rightarrow> (Return (Some e), rowValue)
      | Inr cols \<Rightarrow> scanColumns d cols rowValue)"

section \<open>Find and FindAll\<close>

text \<open>
  \<^verbatim>\<open>doQueryRow\<close> and \<^verbatim>\<open>doQueryRows\<close> take the answers of the driver: the error of
  \<^verbatim>\<open>Prepare\<close> (if any) and either the error of \<^verbatim>\<open>stmt.Query\<close> or the rows
  that \<^verbatim>\<open>rows.Next()\<close> yields. \<^verbatim>\<open>q.Reset()\<close> is deferred first, so it runs on
  every path. \<^verbatim>\<open>rows.Close()\<close> is deferred before the error of
  \<^verbatim>\<open>stmt.Query\<close> is looked at: when that call failed, \<^verbatim>\<open>rows\<close> is nil and the
  deferred call dereferences it.
\<close>

definition doQueryRow :: "Dialect \<Rightarrow> error option \<Rightarrow> error + row list \<Rightarrow> gostruct \<Rightarrow> string
    \<Rightarrow> govalue list \<Rightarrow> world \<Rightarrow> error option outcome \<times> gostruct \<times> world \<times> event list" where
  "doQueryRow d pres qres out query args w =
     (let (err, w1, ev) = Prepare pres query w in
      if err \<noteq> None
      then (let (e, w2) = updateTxError err w1 in (Return e, out, Reset w2, ev))
      else (case qres of
              Inl e \<Rightarrow>
                (Panic NilDeref, out, Reset (snd (updateTxError (Some e) w1)), ev @ [EvStmtQuery args])
            | Inr rows \<Rightarrow>
                (case rows of
                   [] \<Rightarrow> (Return (Some ErrNoRows), out, Reset w1, ev @ [EvStmtQuery args])
                 | r # _ \<Rightarrow>
                     (let (res, out') = scanRows d r out
                      in (res, out', Reset w1, ev @ [EvStmtQuery args])))))"

text \<open>The loop of \<^verbatim>\<open>doQueryRows\<close>: one new struct of the element type per row, appended
  after a successful scan.\<close>

fun scanAll :: "Dialect \<Rightarrow> (string \<times> gotype) list \<Rightarrow> row list \<Rightarrow> gostruct list
    \<Rightarrow> error option outcome \<times> gostruct list" where
  "scanAll d sliceType [] sliceValue = (Return None, sliceValue)"
| "scanAll d sliceType (r # rows) sliceValue =
     (case scanRows d r (zero_struct sliceType) of
        (Return None, rowValue) \<Rightarrow> scanAll d sliceType rows (sliceValue @ [rowValue])
      | (res, _) \<Rightarrow> (res, sliceValue))"

definition doQueryRows :: "Dialect \<Rightarrow> error option \<Rightarrow> error + row list \<Rightarrow> (string \<times> gotype) list
    \<Rightarrow> gostruct list \<Rightarrow> string \<Rightarrow> govalue list \<Rightarrow> world
    \<Rightarrow> error option outcome \<times> gostruct list \<times> world \<times> event list" where
  "doQueryRows d pres qres sliceType out query args w =
     (let (err, w1, ev) = Prepare pres query w in
      if err \<noteq> None
      then (let (e, w2) = updateTxError err w1 in (Return e, out, Reset w2, ev))
      else (case qres of
              Inl e \<Rightarrow>
                (Panic NilDeref, out, Reset (snd (updateTxError (Some e) w1)), ev @ [EvStmtQuery args])
            | Inr rows \<Rightarrow>
                (let (res, out') = scanAll d sliceType rows out
                 in (res, out', Reset w1, ev @ [EvStmtQuery args]))))"

text \<open>Modelled from the spec: pkZero (the primary key is unusable when the struct has no
  primary-key field or the field holds the zero value of its type).\<close>

definition pkZero :: "model \<Rightarrow> bool" where
  "pkZero m = (case pk m of None \<Rightarrow> True | Some f \<Rightarrow> isZero (value' f))"

text \<open>
  \<^verbatim>\<open>structPtrToModel\<close> is not in \<^verbatim>\<open>qbs.go\<close>; the operations take it as the
  argument \<open>mk\<close>: the struct, the join flag and the omitted field names give the model.
\<close>

type_synonym modeller = "gostruct \<Rightarrow> bool \<Rightarrow> string list \<Rightarrow> model"

text \<open>Lines 170 and 171 of \<^verbatim>\<open>Find\<close>: the dialect renders the criteria and the
  statement is run for one row.\<close>

definition findQuery :: "Dialect \<Rightarrow> error option \<Rightarrow> error + row list \<Rightarrow> gostruct \<Rightarrow> world
    \<Rightarrow> error option outcome \<times> gostruct \<times> world \<times> event list" where
  "findQuery d pres qres structPtr w =
     (let (query, args) = querySql d (cur w);
          (res, out, w', ev) = doQueryRow d pres qres structPtr query args w
      in (res, out, w', EvQuerySql (cur w) # ev))"

definition Find :: "Dialect \<Rightarrow> modeller \<Rightarrow> error option \<Rightarrow> error + row list \<Rightarrow> gostruct \<Rightarrow> world
    \<Rightarrow> error option outcome \<times> gostruct \<times> world \<times> event list" where
  "Find d mk pres qres structPtr w =
     (let m = mk structPtr (\<not> omitJoin (cur w)) (omitFields (cur w));
          w1 = set_cur (\<lambda>c. c\<lparr>model := Some m\<rparr>) w;
          w2 = set_cur (\<lambda>c. c\<lparr>limit := 1\<rparr>) w1
      in if \<not> pkZero m
         then (case pk m of
                 None \<Rightarrow> (Panic NilDeref, structPtr, w2, [])
               | Some f \<Rightarrow>
                   (let idPath = quote d (table m) @ ''.'' @ quote d (name f);
                        idCondition = NewCondition (idPath @ '' = ?'') [value' f];
                        w3 = set_cur (\<lambda>c. c\<lparr>condition :=
                               (case condition c of
                                  None \<Rightarrow> Some idCondition
                                | Some u \<Rightarrow> Some (AndCondition idCondition u))\<rparr>) w2
                    in findQuery d pres qres structPtr w3))
         else findQuery d pres qres structPtr w2)"

definition FindAll :: "Dialect \<Rightarrow> modeller \<Rightarrow> error option \<Rightarrow> error + row list
    \<Rightarrow> (string \<times> gotype) list \<Rightarrow> gostruct list \<Rightarrow> world
    \<Rightarrow> error option outcome \<times> gostruct list \<times> world \<times> event list" where
  "FindAll d mk pres qres strucType sliceValue w =
     (let strucPtr = zero_struct strucType;
          m = mk strucPtr (\<not> omitJoin (cur w)) (omitFields (cur w));
          w1 = set_cur (\<lambda>c. c\<lparr>model := Some m\<rparr>) w;
          (query, args) = querySql d (cur w1);
          (res, out, w', ev) = doQueryRows d pres qres strucType sliceValue query args w1
      in (res, out, w', EvQuerySql (cur w1) # ev))"

section \<open>Save, Update and Delete\<close>

text \<open>Modelled from the spec: timeFiled (the "created" and "updated" timestamp fields are
  recognized by name; the position of the first time-valued field of that name, if any).\<close>

fun timeFiledIn :: "modelField list \<Rightarrow> string \<Rightarrow> nat option" where
  "timeFiledIn [] n = None"
| "timeFiledIn (f # fs) n =
     (if name f = n \<and> (case value' f of VTime _ \<Rightarrow> True | _ \<Rightarrow> False) then Some 0
      else map_option Suc (timeFiledIn fs n))"

definition timeFiled :: "model \<Rightarrow> string \<Rightarrow> nat option" where
  "timeFiled m n = timeFiledIn (fields' m) n"

text \<open>The assignment \<^verbatim>\<open>field.value = now\<close> through the pointer that
  \<^verbatim>\<open>timeFiled\<close> returned.\<close>

definition stamp :: "model \<Rightarrow> nat option \<Rightarrow> nat \<Rightarrow> model" where
  "stamp m idx now =
     (case idx of
        None \<Rightarrow> m
      | Some i \<Rightarrow> m\<lparr>fields' := (fields' m)[i := (fields' m ! i)\<lparr>value' := VTime now\<rparr>]\<rparr>)"

text \<open>Modelled from the spec: mergePkCondition (if the struct carries a non-zero
  primary-key value, a primary-key equality Condition is synthesized and AND-combined with
  the existing user condition, primary-key condition first; it works on the criteria object
  in place).\<close>

definition mergePkCondition :: "Dialect \<Rightarrow> criteria \<Rightarrow> criteria" where
  "mergePkCondition d c =
     (case model c of
        None \<Rightarrow> c
      | Some m \<Rightarrow>
          (if pkZero m then c
           else (case pk m of
                   None \<Rightarrow> c
                 | Some f \<Rightarrow>
                     (let idCondition = NewCondition (quote d (name f) @ '' = ?'') [value' f]
                      in c\<lparr>condition :=
                           (case condition c of
                              None \<Rightarrow> Some idCondition
                            | Some u \<Rightarrow> Some (AndCondition idCondition u))\<rparr>))))"

text \<open>The reflective writes of lines 385 to 399. \<open>None\<close> is the panic of
  \<^verbatim>\<open>reflect\<close> when the struct has no field of that name and kind.\<close>

definition SetInt :: "string \<Rightarrow> 64 word \<Rightarrow> gostruct \<Rightarrow> gostruct option" where
  "SetInt n i s =
     (case FieldByName s n of
        Some (VInt64 _) \<Rightarrow> Some (Set_field n (VInt64 i) s)
      | _ \<Rightarrow> None)"

definition SetTime :: "string \<Rightarrow> nat \<Rightarrow> gostruct \<Rightarrow> gostruct option" where
  "SetTime n t s =
     (case FieldByName s n of
        Some (VTime _) \<Rightarrow> Some (Set_field n (VTime t) s)
      | _ \<Rightarrow> None)"

definition writeId :: "model \<Rightarrow> 64 word \<Rightarrow> gostruct \<Rightarrow> gostruct option" where
  "writeId m ident s =
     (case pk m of
        None \<Rightarrow> None
      | Some f \<Rightarrow>
          (case value' f of
             VInt64 _ \<Rightarrow> if ident \<noteq> 0 then SetInt (camelName f) ident s else Some s
           | _ \<Rightarrow> Some s))"

definition writeTime :: "model \<Rightarrow> nat option \<Rightarrow> nat \<Rightarrow> gostruct \<Rightarrow> gostruct option" where
  "writeTime m idx now s =
     (case idx of
        None \<Rightarrow> Some s
      | Some i \<Rightarrow> SetTime (camelName (fields' m ! i)) now s)"

type_synonym save_result = "(64 word \<times> error option) outcome \<times> gostruct \<times> world \<times> event list"

text \<open>Lines 384 to 401 of \<^verbatim>\<open>Save\<close>: the write-back into the caller's struct.\<close>

definition saveFinish :: "model \<Rightarrow> nat option \<Rightarrow> nat option \<Rightarrow> bool \<Rightarrow> 64 word \<Rightarrow> nat
    \<Rightarrow> 64 word \<Rightarrow> error option \<Rightarrow> gostruct \<Rightarrow> world \<Rightarrow> event list \<Rightarrow> save_result" where
  "saveFinish m updateModelField createdModelField isInsert ident now affected err structPtr w ev =
     (if err \<noteq> None then (Return (affected, err), structPtr, w, ev)
      else (case writeId m ident structPtr of
              None \<Rightarrow> (Panic (ReflectPanic ''reflect: SetInt''), structPtr, w, ev)
            | Some s1 \<Rightarrow>
                (case writeTime m updateModelField now s1 of
                   None \<Rightarrow> (Panic (ReflectPanic ''reflect: Set''), s1, w, ev)
                 | Some s2 \<Rightarrow>
                     (case (if isInsert then writeTime m createdModelField now s2 else Some s2) of
                        None \<Rightarrow> (Panic (ReflectPanic ''reflect: Set''), s2, w, ev)
                      | Some s3 \<Rightarrow> (Return (affected, err), s3, w, ev)))))"

type_synonym validator = "world \<Rightarrow> error option \<times> world"

text \<open>
  \<^verbatim>\<open>Save\<close> after the validation step (lines 345 to 401). The model object is shared
  by the local variable and the criteria object \<open>p\<close> it was stored in; the embedding
  keeps the model by value and repeats the writes to it on that criteria object.
  \<open>p\<close> is \<^verbatim>\<open>preservedCriteria\<close>, a pointer.
\<close>

definition saveModel :: "Dialect \<Rightarrow> modeller \<Rightarrow> nat \<Rightarrow> gostruct \<Rightarrow> world \<Rightarrow> event list \<Rightarrow> save_result" where
  "saveModel d mk now structPtr w ev =
     (let m0 = mk structPtr True (omitFields (cur w)) in
      if pk m0 = None then (Panic (PanicMsg ''no primary key field''), structPtr, w, ev)
      else
        (let p = criteria (qbs w);
             updateModelField = timeFiled m0 ''updated'';
             m1 = stamp m0 updateModelField now;
             w1 = set_cur (\<lambda>c. c\<lparr>model := Some m1\<rparr>) w;
             createdModelField = timeFiled m1 ''created'';
             m2 = stamp m1 createdModelField now
         in if \<not> pkZero m1
            then
              (let w2 = set_cur (mergePkCondition d) w1;
                   ((affected, err), w3) = update' d w2;
                   ev1 = ev @ [EvUpdate (criteria (qbs w2)) (cur w2) (affected, err)]
               in if affected = 0 \<and> err = None
                  then
                    (let w4 = set_cur (\<lambda>c. c\<lparr>model := Some m2\<rparr>) (w3\<lparr>qbs := (qbs w3)\<lparr>criteria := p\<rparr>\<rparr>);
                         ((ident, err'), w5) = insert' d w4
                     in saveFinish m2 updateModelField createdModelField True ident now
                          (if err' = None then 1 else affected) err' structPtr w5
                          (ev1 @ [EvInsert (criteria (qbs w4)) (cur w4) (ident, err')]))
                  else saveFinish m1 updateModelField createdModelField False 0 now
                         affected err structPtr w3 ev1)
            else
              (let w2 = set_cur (\<lambda>c. c\<lparr>model := Some m2\<rparr>) w1;
                   ((ident, err), w3) = insert' d w2
               in saveFinish m2 updateModelField createdModelField True ident now
                    (if err = None then 1 else 0) err structPtr w3
                    (ev @ [EvInsert (criteria (qbs w2)) (cur w2) (ident, err)]))))"

definition Save :: "Dialect \<Rightarrow> modeller \<Rightarrow> validator option \<Rightarrow> nat \<Rightarrow> gostruct \<Rightarrow> world \<Rightarrow> save_result" where
  "Save d mk vld now structPtr w =
     (case vld of
        None \<Rightarrow> saveModel d mk now structPtr w []
      | Some v \<Rightarrow>
          (case v w of
             (Some e, w') \<Rightarrow> (Return (0, Some e), structPtr, w', [EvValidate])
           | (None, w') \<Rightarrow> saveModel d mk now structPtr w' [EvValidate]))"

definition Update :: "Dialect \<Rightarrow> modeller \<Rightarrow> validator option \<Rightarrow> gostruct \<Rightarrow> world
    \<Rightarrow> (64 word \<times> error option) outcome \<times> world \<times> event list" where
  "Update d mk vld structPtr w =
     (let (verr, wv, ev) = (case vld of
                              None \<Rightarrow> (None, w, [])
                            | Some v \<Rightarrow> (fst (v w), snd (v w), [EvValidate]))
      in if verr \<noteq> None then (Return (0, verr), wv, ev)
         else
           (let m = mk structPtr True (omitFields (cur wv));
                w1 = set_cur (\<lambda>c. c\<lparr>model := Some m\<rparr>) wv;
                w2 = set_cur (mergePkCondition d) w1
            in if condition (cur w2) = None
               then (Panic (PanicMsg ''Can not update without condition''), w2, ev)
               else (let (r, w3) = update' d w2
                     in (Return r, w3, ev @ [EvUpdate (criteria (qbs w2)) (cur w2) r]))))"

definition Delete :: "Dialect \<Rightarrow> modeller \<Rightarrow> gostruct \<Rightarrow> world
    \<Rightarrow> (64 word \<times> error option) outcome \<times> world \<times> event list" where
  "Delete d mk structPtr w =
     (let m = mk structPtr True (omitFields (cur w));
          w1 = set_cur (\<lambda>c. c\<lparr>model := Some m\<rparr>) w;
          w2 = set_cur (mergePkCondition d) w1
      in if condition (cur w2) = None
         then (Panic (PanicMsg ''Can not delete without condition''), w2, [])
         else (let (r, w3) = delete' d w2
               in (Return r, w3, [EvDelete (criteria (qbs w2)) (cur w2) r])))"

section \<open>Sequences of session operations\<close>

text \<open>
  The operations of a session, each with the answers its collaborators give. \<open>step\<close>
  runs one and tells whether it panicked; \<open>run\<close> runs a list and stops at the first
  panic.
\<close>

datatype op =
    OpBegin "error option"
  | OpCommit "error option"
  | OpRollback "error option"
  | OpPrepare "error option" string
  | OpQuery "error + row list" string "govalue list"
  | OpQueryRow string "govalue list"
  | OpExec "error option" "error + sqlresult" string "govalue list"
  | OpContainsValue "error option" string string govalue
  | OpReset
  | OpWhere string "govalue list"
  | OpWhereEqual string govalue
  | OpCondition "Condition option"
  | OpLimit int
  | OpOffset int
  | OpOrderBy string
  | OpOrderByDesc string
  | OpOmitFields "string list"
  | OpOmitJoin
  | OpFind "error option" "error + row list" gostruct
  | OpFindAll "error option" "error + row list" "(string \<times> gotype) list" "gostruct list"
  | OpSave "validator option" nat gostruct
  | OpUpdate "validator option" gostruct
  | OpDelete gostruct

definition panicked :: "'a outcome \<Rightarrow> bool" where
  "panicked r = (case r of Panic _ \<Rightarrow> True | Return _ \<Rightarrow> False)"

fun step :: "Dialect \<Rightarrow> modeller \<Rightarrow> op \<Rightarrow> world \<Rightarrow> bool \<times> world" where
  "step d mk (OpBegin bres) w = (let (r, w') = Begin bres w in (panicked r, w'))"
| "step d mk (OpCommit cres) w = (let (r, w') = Commit cres w in (panicked r, w'))"
| "step d mk (OpRollback rres) w = (let (r, w') = Rollback rres w in (panicked r, w'))"
| "step d mk (OpPrepare pres query) w = (False, fst (snd (Prepare pres query w)))"
| "step d mk (OpQuery qres query args) w = (False, fst (snd (Query d qres query args w)))"
| "step d mk (OpQueryRow query args) w = (False, fst (QueryRow d query args w))"
| "step d mk (OpExec pres eres query args) w = (False, fst (snd (Exec d pres eres query args w)))"
| "step d mk (OpContainsValue sres tbl column v) w =
     (False, fst (snd (ContainsValue d sres tbl column v w)))"
| "step d mk OpReset w = (False, Reset w)"
| "step d mk (OpWhere expr args) w = (False, Where expr args w)"
| "step d mk (OpWhereEqual column v) w = (False, WhereEqual column v w)"
| "step d mk (OpCondition c) w = (False, Condition' c w)"
| "step d mk (OpLimit n) w = (False, Limit n w)"
| "step d mk (OpOffset n) w = (False, Offset n w)"
| "step d mk (OpOrderBy path) w = (False, OrderBy d path w)"
| "step d mk (OpOrderByDesc path) w = (False, OrderByDesc d path w)"
| "step d mk (OpOmitFields fs) w = (False, OmitFields fs w)"
| "step d mk OpOmitJoin w = (False, OmitJoin w)"
| "step d mk (OpFind pres qres structPtr) w =
     (let (r, out, w', ev) = Find d mk pres qres structPtr w in (panicked r, w'))"
| "step d mk (OpFindAll pres qres ty sl) w =
     (let (r, out, w', ev) = FindAll d mk pres qres ty sl w in (panicked r, w'))"
| "step d mk (OpSave vld now structPtr) w =
     (let (r, out, w', ev) = Save d mk vld now structPtr w in (panicked r, w'))"
| "step d mk (OpUpdate vld structPtr) w =
     (let (r, w', ev) = Update d mk vld structPtr w in (panicked r, w'))"
| "step d mk (OpDelete structPtr) w =
     (let (r, w', ev) = Delete d mk structPtr w in (panicked r, w'))"

fun run :: "Dialect \<Rightarrow> modeller \<Rightarrow> op list \<Rightarrow> world \<Rightarrow> world" where
  "run d mk [] w = w"
| "run d mk (x # xs) w =
     (case step d mk x w of
        (True, w') \<Rightarrow> w'
      | (False, w') \<Rightarrow> run d mk xs w')"

section \<open>Sample collaborators\<close>

text \<open>
  A small dialect and model builder on which the operations can be evaluated. The dialect
  quotes with angle brackets, renders a fixed statement with the bound values of the condition,
  converts a driver value into a field of the matching kind, and its \<^verbatim>\<open>insert\<close>,
  \<^verbatim>\<open>update\<close> and \<^verbatim>\<open>delete\<close> answer with given results after running one
  statement through \<open>Exec\<close>. The model builder takes the field \<^verbatim>\<open>Id\<close> as primary
  key and lists the fields that are not omitted, named in lower case.
\<close>

definition sampleSet :: "dvalue \<Rightarrow> govalue \<Rightarrow> error + govalue" where
  "sampleSet v f =
     (case (v, f) of
        (DInt i, VInt64 _) \<Rightarrow> Inr (VInt64 i)
      | (DBytes b, VString _) \<Rightarrow> Inr (VString b)
      | (DBool b, VBool _) \<Rightarrow> Inr (VBool b)
      | (DTime t, VTime _) \<Rightarrow> Inr (VTime t)
      | _ \<Rightarrow> Inl (Err ''unsupported conversion''))"

definition sampleExec :: "string \<Rightarrow> 64 word \<times> error option \<Rightarrow> world
    \<Rightarrow> (64 word \<times> error option) \<times> world" where
  "sampleExec stmt res w =
     (res, fst (snd (Exec \<lparr>quote = id, querySql = (\<lambda>c. ([], [])), substituteMarkers = id,
                          setModelValue = sampleSet, insert' = Pair res, update' = Pair res,
                          delete' = Pair res\<rparr>
                   None
                   (case snd res of None \<Rightarrow> Inr (SqlResult (fst res) (fst res)) | Some e \<Rightarrow> Inl e)
                   stmt [] w)))"

definition sampleDialect :: "64 word \<times> error option \<Rightarrow> 64 word \<times> error option
    \<Rightarrow> 64 word \<times> error option \<Rightarrow> Dialect" where
  "sampleDialect ires ures dres =
     \<lparr>quote = (\<lambda>s. ''<'' @ s @ ''>''),
      querySql = (\<lambda>c. (''SELECT'', (case condition c of None \<Rightarrow> [] | Some k \<Rightarrow> condition_args k))),
      substituteMarkers = id,
      setModelValue = sampleSet,
      insert' = sampleExec ''INSERT'' ires,
      update' = sampleExec ''UPDATE'' ures,
      delete' = sampleExec ''DELETE'' dres\<rparr>"

definition lower :: "char \<Rightarrow> char" where
  "lower c =
     (case map_of (zip ''ABCDEFGHIJKLMNOPQRSTUVWXYZ'' ''abcdefghijklmnopqrstuvwxyz'') c of
        None \<Rightarrow> c
      | Some l \<Rightarrow> l)"

definition sampleField :: "string \<times> govalue \<Rightarrow> modelField" where
  "sampleField nv = \<lparr>name = map lower (fst nv), camelName = fst nv, value' = snd nv\<rparr>"

definition sampleModel :: modeller where
  "sampleModel s join omit =
     \<lparr>table = ''sample'',
      pk = map_option (\<lambda>v. sampleField (''Id'', v)) (FieldByName s ''Id''),
      fields' = map sampleField
                  (filter (\<lambda>nv. fst nv \<notin> set omit \<and>
                                 (case snd nv of VStructPtr _ _ \<Rightarrow> False | _ \<Rightarrow> True)) s)\<rparr>"

definition addressType :: "(string \<times> gotype) list" where
  "addressType = [(''City'', TString), (''Zip'', TInt64)]"

definition samplePerson :: gostruct where
  "samplePerson = [(''Id'', VInt64 0), (''Name'', VString ''a''),
     (''Address'', VStructPtr addressType None), (''Updated'', VTime 0), (''Created'', VTime 0)]"

text \<open>A session in which a statement failed inside a transaction, and a later
  transaction on the same session in which nothing fails.\<close>

definition failedSession :: world where
  "failedSession = run (sampleDialect (7, None) (1, None) (1, None)) sampleModel
     [OpBegin None, OpExec None (Inl (Err ''duplicate key'')) ''INSERT'' []] New"

definition laterTransaction :: "op list" where
  "laterTransaction =
     [OpRollback None, OpBegin None, OpExec None (Inr (SqlResult 0 1)) ''UPDATE'' []]"

section \<open>Notions used to state the properties\<close>

definition slot :: "world \<Rightarrow> error option" where
  "slot w = firstTxError (qbs w)"

fun first_error :: "error option list \<Rightarrow> error option" where
  "first_error [] = None"
| "first_error (None # es) = first_error es"
| "first_error (Some e # es) = Some e"

text \<open>A callback (a method of the dialect, a validator) keeps the sticky error when it never
  clears or replaces a slot that is set.\<close>

definition keepsFirstError :: "(world \<Rightarrow> 'a \<times> world) \<Rightarrow> bool" where
  "keepsFirstError f = (\<forall>w e. slot w = Some e \<longrightarrow> slot (snd (f w)) = Some e)"

definition dialectKeeps :: "Dialect \<Rightarrow> bool" where
  "dialectKeeps d =
     (keepsFirstError (insert' d) \<and> keepsFirstError (update' d) \<and> keepsFirstError (delete' d))"

fun opKeeps :: "op \<Rightarrow> bool" where
  "opKeeps (OpSave (Some v) now s) = keepsFirstError v"
| "opKeeps (OpUpdate (Some v) s) = keepsFirstError v"
| "opKeeps _ = True"

text \<open>The operations \<^verbatim>\<open>Exec\<close>, \<^verbatim>\<open>Query\<close> and \<^verbatim>\<open>Prepare\<close>, and the error
  that the underlying call of each returned.\<close>

fun txOp :: "op \<Rightarrow> bool" where
  "txOp (OpExec pres eres query args) = True"
| "txOp (OpQuery qres query args) = True"
| "txOp (OpPrepare pres query) = True"
| "txOp _ = False"

fun op_error :: "op \<Rightarrow> error option" where
  "op_error (OpExec pres eres query args) = first_error [pres, err_of eres]"
| "op_error (OpQuery qres query args) = err_of qres"
| "op_error (OpPrepare pres query) = pres"
| "op_error _ = None"

text \<open>The criteria that a list of events shows to have been rendered by the dialect.\<close>

definition rendered :: "event list \<Rightarrow> criteria list" where
  "rendered ev = concat (map (\<lambda>e. case e of EvQuerySql c \<Rightarrow> [c] | _ \<Rightarrow> []) ev)"

text \<open>The validation step of \<^verbatim>\<open>Save\<close> and \<^verbatim>\<open>Update\<close>: its error, the state it
  leaves and the event it adds.\<close>

definition validationError :: "validator option \<Rightarrow> world \<Rightarrow> error option" where
  "validationError vld w = (case vld of None \<Rightarrow> None | Some v \<Rightarrow> fst (v w))"

definition afterValidation :: "validator option \<Rightarrow> world \<Rightarrow> world" where
  "afterValidation vld w = (case vld of None \<Rightarrow> w | Some v \<Rightarrow> snd (v w))"

definition validationEvents :: "validator option \<Rightarrow> event list" where
  "validationEvents vld = (case vld of None \<Rightarrow> [] | Some v \<Rightarrow> [EvValidate])"

text \<open>A dialect resets the criteria when each of its statements leaves the session with a
  fresh empty criteria (as running the statement through \<^verbatim>\<open>Exec\<close> does).\<close>

definition dialectResets :: "Dialect \<Rightarrow> bool" where
  "dialectResets d =
     (\<forall>w. cur (snd (insert' d w)) = new_criteria \<and> cur (snd (update' d w)) = new_criteria
        \<and> cur (snd (delete' d w)) = new_criteria)"

text \<open>Sample inputs: a struct that carries a primary key, a session with a user condition,
  a dialect whose statements succeed, a validator that rejects.\<close>

definition savedPerson :: gostruct where
  "savedPerson = Set_field ''Id'' (VInt64 5) samplePerson"

definition filteredSession :: world where
  "filteredSession = Where ''name = ?'' [VString ''a''] New"

definition okDialect :: Dialect where
  "okDialect = sampleDialect (7, None) (1, None) (1, None)"

definition rejectAll :: validator where
  "rejectAll w = (Some (Err ''invalid''), w)"

text \<open>Sample inputs for scanning: the type of the sample struct, a result of one row, and
  a struct with two nil pointers to nested structs.\<close>

definition personType :: "(string \<times> gotype) list" where
  "personType = [(''Id'', TInt64), (''Name'', TString), (''Address'', TStructPtr addressType),
     (''Updated'', TTime), (''Created'', TTime)]"

definition oneRow :: "row list" where
  "oneRow = [Inr [(''id'', Some (DInt 3)), (''name'', Some (DBytes ''b''))]]"

definition joinedStruct :: gostruct where
  "joinedStruct = [(''Address'', VStructPtr [(''CityX'', TString)] None),
                   (''AddressCity'', VStructPtr [(''X'', TString)] None)]"

text \<open>What scanning a row into a new struct of the element type gives, and whether it
  ends without error or panic.\<close>

definition scanned :: "Dialect \<Rightarrow> (string \<times> gotype) list \<Rightarrow> row \<Rightarrow> gostruct" where
  "scanned d ty r = snd (scanRows d r (zero_struct ty))"

definition scansCleanly :: "Dialect \<Rightarrow> (string \<times> gotype) list \<Rightarrow> row \<Rightarrow> bool" where
  "scansCleanly d ty r = (fst (scanRows d r (zero_struct ty)) = Return None)"

text \<open>A struct without a primary-key field.\<close>

definition namedOnly :: gostruct where
  "namedOnly = [(''Name'', VString ''b'')]"

text \<open>Two more sample dialects: one whose update finds no row, one whose update fails.
  \<open>statement\<close> names the statement of the dialect that an event records.\<close>

definition missingRowDialect :: Dialect where
  "missingRowDialect = sampleDialect (7, None) (0, None) (1, None)"

definition failingUpdateDialect :: Dialect where
  "failingUpdateDialect = sampleDialect (7, None) (0, Some (Err ''deadlock'')) (1, None)"

fun statement :: "event \<Rightarrow> string" where
  "statement (EvInsert p c r) = ''INSERT''"
| "statement (EvUpdate p c r) = ''UPDATE''"
| "statement (EvDelete p c r) = ''DELETE''"
| "statement _ = []"

section \<open>Basic facts about the session state\<close>

lemma Reset_cur: "cur (Reset w) = new_criteria"
  by (simp add: Reset_def cur_def)

lemma slot_updateTxError:
  "slot (snd (updateTxError e w)) = first_error [slot w, e]"
  by (cases e; cases "slot w") (auto simp: updateTxError_def slot_def)

lemma Tx_updateTxError: "Tx (qbs (snd (updateTxError e w))) = Tx (qbs w)"
  by (simp add: updateTxError_def)

lemma slot_Reset: "slot (Reset w) = slot w"
  by (simp add: Reset_def slot_def)

lemma Tx_Reset: "Tx (qbs (Reset w)) = Tx (qbs w)"
  by (simp add: Reset_def)

lemma slot_set_cur: "slot (set_cur f w) = slot w"
  by (simp add: set_cur_def slot_def)

lemma Tx_set_cur: "Tx (qbs (set_cur f w)) = Tx (qbs w)"
  by (simp add: set_cur_def)

lemma first_error_Some: "first_error (Some e # es) = Some e"
  by simp

lemma slot_Prepare: "slot (fst (snd (Prepare pres query w))) = first_error [slot w, pres]"
  by (simp add: Prepare_def slot_updateTxError)

lemma fst_updateTxError: "fst (updateTxError e w) = e"
  by (simp add: updateTxError_def)

lemma first_error_idem: "first_error [first_error [s, a], a] = first_error [s, a]"
  by (cases s; cases a) auto

lemma slot_Exec:
  "slot (fst (snd (Exec d pres eres query args w))) =
     first_error [slot w, pres, err_of eres]"
  by (cases pres; cases eres; cases "slot w")
     (simp_all add: Exec_def Prepare_def slot_Reset slot_updateTxError err_of_def
        case_prod_beta Let_def)

lemma Tx_Exec: "Tx (qbs (fst (snd (Exec d pres eres query args w)))) = Tx (qbs w)"
  by (cases pres; cases eres)
     (simp_all add: Exec_def Prepare_def Tx_Reset Tx_updateTxError case_prod_beta Let_def)

lemma cur_Exec: "cur (fst (snd (Exec d pres eres query args w))) = new_criteria"
  by (cases pres; cases eres)
     (simp_all add: Exec_def Prepare_def Reset_cur case_prod_beta Let_def)

lemma slot_Query: "slot (fst (snd (Query d qres query args w))) = first_error [slot w, err_of qres]"
  by (simp add: Query_def slot_updateTxError)

lemma Tx_Query: "Tx (qbs (fst (snd (Query d qres query args w)))) = Tx (qbs w)"
  by (simp add: Query_def Tx_updateTxError)

lemma Tx_Prepare: "Tx (qbs (fst (snd (Prepare pres query w)))) = Tx (qbs w)"
  by (simp add: Prepare_def Tx_updateTxError)

lemma Commit_result:
  "Tx (qbs w) \<Longrightarrow> fst (Commit cres w) = Return (first_error [slot w, cres])"
  using slot_updateTxError [of cres w]
  by (simp add: Commit_def Let_def slot_def)

lemma slot_Commit: "slot (snd (Commit cres w)) = (if Tx (qbs w) then first_error [slot w, cres] else slot w)"
  using slot_updateTxError [of cres w]
  by (simp add: Commit_def Let_def slot_def)

lemma slot_Rollback: "slot (snd (Rollback rres w)) = (if Tx (qbs w) then first_error [slot w, rres] else slot w)"
  using slot_updateTxError [of rres "w\<lparr>qbs := (qbs w)\<lparr>Tx := False\<rparr>\<rparr>"]
  by (simp add: Rollback_def Let_def slot_def case_prod_beta)

lemma slot_Begin: "slot (snd (Begin bres w)) = slot w"
  by (cases bres) (simp_all add: Begin_def slot_def)

lemma keepsD: "keepsFirstError f \<Longrightarrow> slot w = Some e \<Longrightarrow> slot (snd (f w)) = Some e"
  by (simp add: keepsFirstError_def)

lemma world_saveFinish:
  "fst (snd (snd (saveFinish m u c i ident now a err s w ev))) = w"
  by (simp add: saveFinish_def split: option.splits)

lemma slot_doQueryRow:
  "slot w = Some e \<Longrightarrow> slot (fst (snd (snd (doQueryRow d pres qres out query args w)))) = Some e"
  by (cases pres; cases qres)
     (simp_all add: doQueryRow_def Prepare_def slot_Reset slot_updateTxError
        case_prod_beta Let_def split: list.splits)

lemma slot_doQueryRows:
  "slot w = Some e \<Longrightarrow> slot (fst (snd (snd (doQueryRows d pres qres ty out query args w)))) = Some e"
  by (cases pres; cases qres)
     (simp_all add: doQueryRows_def Prepare_def slot_Reset slot_updateTxError
        case_prod_beta Let_def split: list.splits)

lemma slot_findQuery:
  "slot w = Some e \<Longrightarrow> slot (fst (snd (snd (findQuery d pres qres s w)))) = Some e"
  by (simp add: findQuery_def case_prod_beta slot_doQueryRow)

lemma slot_Find:
  "slot w = Some e \<Longrightarrow> slot (fst (snd (snd (Find d mk pres qres s w)))) = Some e"
  by (simp add: Find_def Let_def slot_findQuery slot_set_cur split: option.splits)

lemma slot_FindAll:
  "slot w = Some e \<Longrightarrow> slot (fst (snd (snd (FindAll d mk pres qres ty sl w)))) = Some e"
  by (simp add: FindAll_def Let_def case_prod_beta slot_doQueryRows slot_set_cur)

lemma slot_set_ptr: "slot (w\<lparr>qbs := (qbs w)\<lparr>criteria := p\<rparr>\<rparr>) = slot w"
  by (simp add: slot_def)

lemma slot_saveModel:
  assumes "dialectKeeps d" and "slot w = Some e"
  shows "slot (fst (snd (snd (saveModel d mk now s w ev)))) = Some e"
  using assms
  by (auto simp: saveModel_def Let_def case_prod_beta world_saveFinish dialectKeeps_def
        slot_set_cur slot_set_ptr intro!: keepsD)

lemma slot_Save:
  assumes "dialectKeeps d" and "opKeeps (OpSave vld now s)" and "slot w = Some e"
  shows "slot (fst (snd (snd (Save d mk vld now s w)))) = Some e"
proof (cases vld)
  case None
  then show ?thesis using assms by (simp add: Save_def slot_saveModel)
next
  case (Some v)
  then have k: "slot (snd (v w)) = Some e" using assms by (simp add: keepsD)
  show ?thesis
  proof (cases "fst (v w)")
    case None
    then show ?thesis using Some k assms(1)
      by (simp add: Save_def case_prod_beta slot_saveModel split: prod.splits option.splits)
  next
    case (Some a)
    then show ?thesis using \<open>vld = Some v\<close> k
      by (auto simp add: Save_def split: prod.splits option.splits)
  qed
qed

lemma slot_Update:
  assumes "dialectKeeps d" and "opKeeps (OpUpdate vld s)" and "slot w = Some e"
  shows "slot (fst (snd (Update d mk vld s w))) = Some e"
proof -
  have u: "\<And>w'. slot w' = Some e \<Longrightarrow> slot (snd (update' d w')) = Some e"
    using assms(1) by (simp add: dialectKeeps_def keepsD)
  have v: "\<And>f. vld = Some f \<Longrightarrow> slot (snd (f w)) = Some e"
    using assms(2,3) by (auto simp: keepsD)
  show ?thesis
    using assms(3) u v
    by (cases vld) (simp_all add: Update_def Let_def case_prod_beta slot_set_cur)
qed

lemma slot_Delete:
  assumes "dialectKeeps d" and "slot w = Some e"
  shows "slot (fst (snd (Delete d mk s w))) = Some e"
  using assms
  by (simp add: Delete_def Let_def case_prod_beta slot_set_cur dialectKeeps_def keepsD)

lemma slot_ContainsValue:
  "slot w = Some e \<Longrightarrow> slot (fst (snd (ContainsValue d sres tbl col v w))) = Some e"
  by (simp add: ContainsValue_def QueryRow_def Let_def slot_updateTxError)

lemma slot_step:
  assumes "dialectKeeps d" and "opKeeps x" and "slot w = Some e"
  shows "slot (snd (step d mk x w)) = Some e"
proof (cases x)
  case (OpSave vld now s)
  then show ?thesis using slot_Save [of d vld now s w e mk] assms
    by (simp add: case_prod_beta)
next
  case (OpUpdate vld s)
  then show ?thesis using slot_Update [of d vld s w e mk] assms
    by (simp add: case_prod_beta)
next
  case (OpDelete s)
  then show ?thesis using slot_Delete [of d w e mk s] assms
    by (simp add: case_prod_beta)
qed (use assms(3) in \<open>simp_all add: case_prod_beta slot_Begin slot_Commit slot_Rollback slot_Prepare
      slot_Query slot_Exec slot_ContainsValue slot_Reset slot_Find slot_FindAll QueryRow_def
      Where_def WhereEqual_def Condition'_def Limit_def Offset_def OrderBy_def OrderByDesc_def
      OmitFields_def OmitJoin_def slot_set_cur\<close>)

lemma slot_run:
  assumes "dialectKeeps d" and "list_all opKeeps xs" and "slot w = Some e"
  shows "slot (run d mk xs w) = Some e"
  using assms(2,3)
proof (induction xs arbitrary: w)
  case Nil
  then show ?case by simp
next
  case (Cons x xs)
  have s: "slot (snd (step d mk x w)) = Some e"
    using Cons.prems assms(1) by (simp add: slot_step)
  show ?case
  proof (cases "fst (step d mk x w)")
    case True
    then show ?thesis using s by (simp add: case_prod_beta)
  next
    case False
    then show ?thesis using s Cons by (simp add: case_prod_beta)
  qed
qed

lemma keeps_sampleExec: "keepsFirstError (sampleExec stmt res)"
  by (simp add: keepsFirstError_def sampleExec_def slot_Exec)

lemma dialectKeeps_sample: "dialectKeeps (sampleDialect ires ures dres)"
  by (simp add: dialectKeeps_def sampleDialect_def keeps_sampleExec)

lemma Tx_Commit: "\<not> Tx (qbs (snd (Commit cres w)))"
  by (simp add: Commit_def Let_def)

lemma Tx_Rollback: "\<not> Tx (qbs (snd (Rollback rres w)))"
  by (simp add: Rollback_def Let_def case_prod_beta Tx_updateTxError)

lemma failedSession_slot: "firstTxError (qbs failedSession) = Some (Err ''duplicate key'')"
  by (simp add: failedSession_def New_def Begin_def Exec_def Prepare_def updateTxError_def
        Reset_def panicked_def)

lemma laterTransaction_Tx:
  "Tx (qbs (run (sampleDialect (7, None) (1, None) (1, None)) sampleModel laterTransaction
     failedSession))"
  by (simp add: laterTransaction_def failedSession_def New_def Begin_def Rollback_def Exec_def
        Prepare_def updateTxError_def Reset_def panicked_def sampleDialect_def)

section \<open>The sticky first error\<close>

text \<open>
  Claim C10. The sticky first-error slot, once set, is never cleared: it survives every
  sequence of session operations (for \<^verbatim>\<open>Save\<close>, \<^verbatim>\<open>Update\<close> and
  \<^verbatim>\<open>Delete\<close>, whose only writes to it happen inside the dialect and the validator,
  as long as those keep it). \<^verbatim>\<open>Commit\<close> and \<^verbatim>\<open>Rollback\<close> clear the transaction
  handle and leave the slot as it is. So when the session is used again, whatever the
  operations \<open>xs\<close> in between (ending the old transaction, beginning a new one, running
  statements that all succeed), the \<^verbatim>\<open>Commit\<close> of the later transaction returns the
  earlier error.
\<close>

theorem sticky_error_never_cleared:
  assumes "dialectKeeps d" and "list_all opKeeps xs" and "firstTxError (qbs w) = Some e"
  shows "firstTxError (qbs (run d mk xs w)) = Some e
       \<and> firstTxError (qbs (snd (Commit cres w))) = Some e \<and> \<not> Tx (qbs (snd (Commit cres w)))
       \<and> firstTxError (qbs (snd (Rollback rres w))) = Some e \<and> \<not> Tx (qbs (snd (Rollback rres w)))
       \<and> (Tx (qbs (run d mk xs w)) \<longrightarrow> fst (Commit cres (run d mk xs w)) = Return (Some e))"
proof -
  have s: "slot w = Some e" using assms(3) by (simp add: slot_def)
  have r: "slot (run d mk xs w) = Some e" using assms(1,2) s by (rule slot_run)
  have c: "slot (snd (Commit cres w)) = Some e" using s by (simp add: slot_Commit)
  have b: "slot (snd (Rollback rres w)) = Some e" using s by (simp add: slot_Rollback)
  have l: "Tx (qbs (run d mk xs w)) \<longrightarrow> fst (Commit cres (run d mk xs w)) = Return (Some e)"
    using r by (simp add: Commit_result)
  show ?thesis using r c b l Tx_Commit Tx_Rollback by (simp add: slot_def)
qed

theorem sticky_error_never_cleared_witness:
  "dialectKeeps (sampleDialect (7, None) (1, None) (1, None))
   \<and> list_all opKeeps laterTransaction
   \<and> firstTxError (qbs failedSession) = Some (Err ''duplicate key'')
   \<and> Tx (qbs (run (sampleDialect (7, None) (1, None) (1, None)) sampleModel laterTransaction
          failedSession))
   \<and> fst (Commit None (run (sampleDialect (7, None) (1, None) (1, None)) sampleModel
          laterTransaction failedSession))
       = Return (Some (Err ''duplicate key''))"
proof -
  have k: "dialectKeeps (sampleDialect (7, None) (1, None) (1, None))"
    by (rule dialectKeeps_sample)
  have o: "list_all opKeeps laterTransaction" by (simp add: laterTransaction_def)
  show ?thesis
    using sticky_error_never_cleared [OF k o failedSession_slot, of sampleModel None None]
      k o failedSession_slot laterTransaction_Tx by simp
qed

text \<open>
  Inside a transaction, after any \<^verbatim>\<open>Exec\<close>, \<^verbatim>\<open>Query\<close> and \<^verbatim>\<open>Prepare\<close> calls,
  \<^verbatim>\<open>Commit\<close> returns the first error among the one already in the slot when the
  calls began, the errors of the calls, and the error of the commit call itself.
\<close>

lemma first_error_Cons: "first_error (a # es) = (case a of None \<Rightarrow> first_error es | Some e \<Rightarrow> Some e)"
  by (cases a) simp_all

lemma first_error_append: "first_error (xs @ ys) = first_error (first_error xs # ys)"
  by (induction xs rule: first_error.induct) (simp_all add: first_error_Cons split: option.splits)

lemma step_txOp:
  assumes "txOp x"
  shows "fst (step d mk x w) = False
       \<and> slot (snd (step d mk x w)) = first_error [slot w, op_error x]
       \<and> Tx (qbs (snd (step d mk x w))) = Tx (qbs w)"
  using assms
  by (cases x)
     (simp_all add: slot_Exec slot_Query slot_Prepare Tx_Exec Tx_Query Tx_Prepare
        first_error_Cons split: option.splits)

lemma run_txOps:
  assumes "list_all txOp xs"
  shows "slot (run d mk xs w) = first_error (slot w # map op_error xs)
       \<and> Tx (qbs (run d mk xs w)) = Tx (qbs w)"
  using assms
proof (induction xs arbitrary: w)
  case Nil
  then show ?case by (simp add: first_error_Cons split: option.splits)
next
  case (Cons x xs)
  then have s: "fst (step d mk x w) = False"
      "slot (snd (step d mk x w)) = first_error [slot w, op_error x]"
      "Tx (qbs (snd (step d mk x w))) = Tx (qbs w)"
    using step_txOp [of x d mk w] by simp_all
  have "run d mk (x # xs) w = run d mk xs (snd (step d mk x w))"
    using s(1) by (simp add: case_prod_beta)
  then show ?case using Cons s
    by (simp add: first_error_Cons split: option.splits)
qed

lemma Commit_in_transaction:
  assumes "Tx (qbs w)" and "list_all txOp xs"
  shows "fst (Commit cres (run d mk xs w))
           = Return (first_error (slot w # map op_error xs @ [cres]))"
proof -
  have "fst (Commit cres (run d mk xs w)) = Return (first_error [slot (run d mk xs w), cres])"
    using assms run_txOps [OF assms(2), of d mk w] by (simp add: Commit_result)
  also have "first_error [slot (run d mk xs w), cres]
             = first_error (slot w # map op_error xs @ [cres])"
    using run_txOps [OF assms(2), of d mk w]
      first_error_append [of "slot w # map op_error xs" "[cres]"]
    by simp
  finally show ?thesis .
qed

text \<open>
  Claim C5. \<^verbatim>\<open>Commit\<close> is documented to report the first error that occurred inside
  the transaction, and does so when the slot is empty as the transaction begins
  (\<open>Commit_in_transaction\<close>). On a session whose earlier transaction failed with one
  error and was rolled back, a second transaction in which a statement fails with another
  error commits with the error of the earlier transaction, not with the first error of its
  own.
\<close>

theorem commit_reports_stale_error:
  "fst (Commit None (run (sampleDialect (7, None) (1, None) (1, None)) sampleModel
      [OpBegin None, OpExec None (Inl (Err ''first'')) ''INSERT'' [], OpRollback None,
       OpBegin None, OpExec None (Inl (Err ''second'')) ''UPDATE'' []] New))
   = Return (Some (Err ''first''))"
  by (simp add: New_def Begin_def Rollback_def Commit_def Exec_def Prepare_def updateTxError_def
        Reset_def panicked_def sampleDialect_def)

section \<open>Find\<close>

lemma pkZero_no_pk: "pk m = None \<Longrightarrow> pkZero m"
  by (simp add: pkZero_def)

lemma result_doQueryRow_no_rows:
  "fst (doQueryRow d None (Inr []) out query args w) = Return (Some ErrNoRows)
   \<and> fst (snd (doQueryRow d None (Inr []) out query args w)) = out"
  by (simp add: doQueryRow_def Prepare_def)

lemma result_findQuery_no_rows:
  "fst (findQuery d None (Inr []) s w) = Return (Some ErrNoRows)
   \<and> fst (snd (findQuery d None (Inr []) s w)) = s"
  using result_doQueryRow_no_rows [of d s "fst (querySql d (cur w))" "snd (querySql d (cur w))" w]
  by (simp add: findQuery_def case_prod_beta)

text \<open>
  Claim C6. A \<^verbatim>\<open>Find\<close> whose statement is prepared and executed and yields no row
  returns the distinguished value \<^verbatim>\<open>sql.ErrNoRows\<close>, whatever the session, the
  struct and the dialect are, and leaves the caller's struct as it was.
\<close>

theorem Find_no_rows:
  "fst (Find d mk None (Inr []) structPtr w) = Return (Some ErrNoRows)
   \<and> fst (snd (Find d mk None (Inr []) structPtr w)) = structPtr"
proof (cases "pkZero (mk structPtr (\<not> omitJoin (cur w)) (omitFields (cur w)))")
  case True
  then show ?thesis by (simp add: Find_def Let_def result_findQuery_no_rows)
next
  case False
  then obtain f where "pk (mk structPtr (\<not> omitJoin (cur w)) (omitFields (cur w))) = Some f"
    using pkZero_no_pk by (cases "pk (mk structPtr (\<not> omitJoin (cur w)) (omitFields (cur w)))") auto
  with False show ?thesis by (simp add: Find_def Let_def result_findQuery_no_rows)
qed

lemma rendered_doQueryRow: "rendered (snd (snd (snd (doQueryRow d pres qres out query args w)))) = []"
  by (cases pres; cases qres)
     (simp_all add: doQueryRow_def Prepare_def rendered_def case_prod_beta Let_def split: list.splits)

lemma rendered_findQuery: "rendered (snd (snd (snd (findQuery d pres qres s w)))) = [cur w]"
  using rendered_doQueryRow [of d pres qres s "fst (querySql d (cur w))" "snd (querySql d (cur w))" w]
  by (simp add: findQuery_def case_prod_beta rendered_def)

lemma cur_set_cur: "cur (set_cur f w) = f (cur w)"
  by (simp add: cur_def set_cur_def)

text \<open>
  Claim C2. \<^verbatim>\<open>Find\<close> has the dialect render exactly one criteria. Its limit is 1. When
  the struct carries a non-zero primary key, its condition is the synthesized equality on
  the primary key, AND-combined ahead of the user's condition when there is one (so the
  bound values are the key's value followed by the user's); when the primary key is
  zero-valued, the condition is the user's, unchanged.
\<close>

theorem Find_merges_pk_condition:
  assumes "mk structPtr (\<not> omitJoin (cur w)) (omitFields (cur w)) = m"
  shows "(pkZero m \<longrightarrow>
            rendered (snd (snd (snd (Find d mk pres qres structPtr w))))
              = [(cur w)\<lparr>model := Some m, limit := 1\<rparr>])
       \<and> (\<not> pkZero m \<longrightarrow> pk m = Some f \<longrightarrow>
            idCondition = NewCondition (quote d (table m) @ ''.'' @ quote d (name f) @ '' = ?'') [value' f] \<longrightarrow>
            rendered (snd (snd (snd (Find d mk pres qres structPtr w))))
              = [(cur w)\<lparr>model := Some m, limit := 1,
                   condition := Some (case condition (cur w) of
                                        None \<Rightarrow> idCondition
                                      | Some u \<Rightarrow> AndCondition idCondition u)\<rparr>]
            \<and> (\<forall>u. condition_args (AndCondition idCondition u) = value' f # condition_args u))"
  using assms
  by (auto simp: Find_def Let_def rendered_findQuery cur_set_cur NewCondition_def AndCondition_def
        split: option.splits)

lemma savedPerson_model:
  "pk (sampleModel savedPerson b omit) = Some \<lparr>name = ''id'', camelName = ''Id'', value' = VInt64 5\<rparr>"
  by (simp add: sampleModel_def savedPerson_def samplePerson_def FieldByName_def sampleField_def lower_def)

lemma cur_filteredSession: "cur filteredSession = new_criteria\<lparr>condition := Some (Cond ''name = ?'' [VString ''a''])\<rparr>"
  by (simp add: filteredSession_def Where_def New_def cur_set_cur Reset_cur NewCondition_def)

theorem Find_merges_pk_condition_witness:
  "\<not> pkZero (sampleModel savedPerson True [])
   \<and> pk (sampleModel savedPerson True []) = Some \<lparr>name = ''id'', camelName = ''Id'', value' = VInt64 5\<rparr>
   \<and> map condition (rendered (snd (snd (snd (Find okDialect sampleModel None (Inr []) savedPerson filteredSession)))))
       = [Some (CondAnd (Cond ''<sample>.<id> = ?'' [VInt64 5]) (Cond ''name = ?'' [VString ''a'']))]
   \<and> map limit (rendered (snd (snd (snd (Find okDialect sampleModel None (Inr []) savedPerson filteredSession)))))
       = [1]"
proof -
  have z: "\<not> pkZero (sampleModel savedPerson True [])"
    by (simp add: pkZero_def savedPerson_model)
  have t: "table (sampleModel savedPerson True []) = ''sample''"
    by (simp add: sampleModel_def)
  have c: "omitJoin (cur filteredSession) = False" "omitFields (cur filteredSession) = []"
    by (simp_all add: cur_filteredSession new_criteria_def)
  show ?thesis
    using Find_merges_pk_condition [of sampleModel savedPerson filteredSession
        "sampleModel savedPerson True []" okDialect None "Inr []"
        "\<lparr>name = ''id'', camelName = ''Id'', value' = VInt64 5\<rparr>"
        "NewCondition (quote okDialect ''sample'' @ ''.'' @ quote okDialect ''id'' @ '' = ?'') [VInt64 5]"]
      z t c savedPerson_model [of True "[]"]
    by (simp add: cur_filteredSession okDialect_def sampleDialect_def NewCondition_def AndCondition_def)
qed

section \<open>Resetting the criteria\<close>

lemma cur_doQueryRow: "cur (fst (snd (snd (doQueryRow d pres qres out query args w)))) = new_criteria"
  by (cases pres; cases qres)
     (simp_all add: doQueryRow_def Prepare_def Reset_cur case_prod_beta Let_def split: list.splits)

lemma cur_doQueryRows: "cur (fst (snd (snd (doQueryRows d pres qres ty out query args w)))) = new_criteria"
  by (cases pres; cases qres)
     (simp_all add: doQueryRows_def Prepare_def Reset_cur case_prod_beta Let_def)

lemma cur_findQuery: "cur (fst (snd (snd (findQuery d pres qres s w)))) = new_criteria"
  by (simp add: findQuery_def case_prod_beta cur_doQueryRow)

lemma cur_Find: "cur (fst (snd (snd (Find d mk pres qres s w)))) = new_criteria"
proof (cases "pk (mk s (\<not> omitJoin (cur w)) (omitFields (cur w)))")
  case None
  then show ?thesis by (simp add: Find_def Let_def cur_findQuery pkZero_no_pk)
next
  case (Some f)
  then show ?thesis by (simp add: Find_def Let_def cur_findQuery)
qed

lemma cur_FindAll: "cur (fst (snd (snd (FindAll d mk pres qres ty sl w)))) = new_criteria"
  by (simp add: FindAll_def Let_def case_prod_beta cur_doQueryRows)

lemma Save_validated:
  "validationError vld w = None \<Longrightarrow>
     Save d mk vld now s w = saveModel d mk now s (afterValidation vld w) (validationEvents vld)"
  by (cases vld)
     (auto simp: Save_def validationError_def afterValidation_def validationEvents_def
        split: prod.splits option.splits)

lemma Save_invalid:
  "validationError vld w = Some e \<Longrightarrow>
     Save d mk vld now s w = (Return (0, Some e), s, afterValidation vld w, validationEvents vld)"
  by (cases vld)
     (auto simp: Save_def validationError_def afterValidation_def validationEvents_def
        split: prod.splits option.splits)

lemma cur_saveModel:
  assumes "dialectResets d" and "pk (mk s True (omitFields (cur w))) \<noteq> None"
  shows "cur (fst (snd (snd (saveModel d mk now s w ev)))) = new_criteria"
  using assms
  by (auto simp: saveModel_def Let_def case_prod_beta world_saveFinish dialectResets_def)

lemma cur_Update:
  assumes "dialectResets d" and "validationError vld w = None"
    and "\<not> panicked (fst (Update d mk vld s w))"
  shows "cur (fst (snd (Update d mk vld s w))) = new_criteria"
  using assms
  by (cases vld)
     (auto simp: Update_def Let_def case_prod_beta dialectResets_def validationError_def
        panicked_def split: if_splits)

lemma cur_Delete:
  assumes "dialectResets d" and "\<not> panicked (fst (Delete d mk s w))"
  shows "cur (fst (snd (Delete d mk s w))) = new_criteria"
  using assms
  by (auto simp: Delete_def Let_def case_prod_beta dialectResets_def panicked_def split: if_splits)

text \<open>
  Claim C4, amended. After every \<^verbatim>\<open>Find\<close>, \<^verbatim>\<open>FindAll\<close> and \<^verbatim>\<open>Exec\<close>, on
  every path, the criteria of the session is a fresh empty one. \<^verbatim>\<open>Save\<close>,
  \<^verbatim>\<open>Update\<close> and \<^verbatim>\<open>Delete\<close> do not reset the criteria themselves: after them the
  criteria is fresh whenever the call reaches the dialect (validation passed, the struct
  has a primary key for \<^verbatim>\<open>Save\<close>, no panic for want of a condition) and the dialect's
  statements reset it.
\<close>

theorem criteria_reset_after_call:
  "cur (fst (snd (snd (Find d mk pres qres s w)))) = new_criteria
   \<and> cur (fst (snd (snd (FindAll d mk pres qres ty sl w)))) = new_criteria
   \<and> cur (fst (snd (Exec d pres eres query args w))) = new_criteria
   \<and> (dialectResets d \<longrightarrow> validationError vld w = None \<longrightarrow>
        pk (mk s True (omitFields (cur (afterValidation vld w)))) \<noteq> None \<longrightarrow>
        cur (fst (snd (snd (Save d mk vld now s w)))) = new_criteria)
   \<and> (dialectResets d \<longrightarrow> validationError vld w = None \<longrightarrow>
        \<not> panicked (fst (Update d mk vld s w)) \<longrightarrow>
        cur (fst (snd (Update d mk vld s w))) = new_criteria)
   \<and> (dialectResets d \<longrightarrow> \<not> panicked (fst (Delete d mk s w)) \<longrightarrow>
        cur (fst (snd (Delete d mk s w))) = new_criteria)"
  by (simp add: cur_Find cur_FindAll cur_Exec Save_validated cur_saveModel cur_Update cur_Delete)

lemma cur_sampleExec: "cur (snd (sampleExec stmt res w)) = new_criteria"
  by (simp add: sampleExec_def cur_Exec)

lemma dialectResets_sample: "dialectResets (sampleDialect ires ures dres)"
  by (simp add: dialectResets_def sampleDialect_def cur_sampleExec)

lemma Update_sample_runs:
  "\<not> panicked (fst (Update okDialect sampleModel None savedPerson filteredSession))"
  by (simp add: Update_def Let_def case_prod_beta cur_set_cur cur_filteredSession panicked_def
        mergePkCondition_def pkZero_def savedPerson_model new_criteria_def)

lemma Delete_sample_runs:
  "\<not> panicked (fst (Delete okDialect sampleModel savedPerson filteredSession))"
  by (simp add: Delete_def Let_def case_prod_beta cur_set_cur cur_filteredSession panicked_def
        mergePkCondition_def pkZero_def savedPerson_model new_criteria_def)

theorem criteria_reset_after_call_witness:
  "dialectResets okDialect
   \<and> validationError None filteredSession = None
   \<and> pk (sampleModel savedPerson True (omitFields (cur (afterValidation None filteredSession)))) \<noteq> None
   \<and> \<not> panicked (fst (Update okDialect sampleModel None savedPerson filteredSession))
   \<and> \<not> panicked (fst (Delete okDialect sampleModel savedPerson filteredSession))
   \<and> cur (fst (snd (snd (Save okDialect sampleModel None 99 savedPerson filteredSession)))) = new_criteria
   \<and> cur (fst (snd (Update okDialect sampleModel None savedPerson filteredSession))) = new_criteria
   \<and> cur (fst (snd (Delete okDialect sampleModel savedPerson filteredSession))) = new_criteria
   \<and> cur (fst (snd (snd (Find okDialect sampleModel None (Inr []) savedPerson filteredSession)))) = new_criteria"
proof -
  have r: "dialectResets okDialect" by (simp add: okDialect_def dialectResets_sample)
  have v: "validationError None filteredSession = None" by (simp add: validationError_def)
  have p: "pk (sampleModel savedPerson True (omitFields (cur (afterValidation None filteredSession)))) \<noteq> None"
    by (simp add: savedPerson_model)
  show ?thesis
    using criteria_reset_after_call [of okDialect sampleModel None "Inr []" savedPerson
        filteredSession "[]" "[]" "Inr (SqlResult 0 0)" "[]" "[]" None 99]
      r v p Update_sample_runs Delete_sample_runs
    by simp
qed

text \<open>
  Claim C4 as stated fails for a \<^verbatim>\<open>Save\<close> that the validator rejects: it returns
  before anything resets the criteria, and the user's condition stays on the session.
\<close>

theorem failed_validation_keeps_criteria:
  "cur (fst (snd (snd (Save okDialect sampleModel (Some rejectAll) 99 samplePerson filteredSession))))
     \<noteq> new_criteria
   \<and> condition (cur (fst (snd (snd (Save okDialect sampleModel (Some rejectAll) 99 samplePerson
        filteredSession)))))
     = Some (Cond ''name = ?'' [VString ''a''])"
  by (simp add: Save_def rejectAll_def cur_filteredSession new_criteria_def)

section \<open>FindAll\<close>

lemma scanAll_clean:
  "list_all (scansCleanly d ty) rows \<Longrightarrow>
     scanAll d ty rows acc = (Return None, acc @ map (scanned d ty) rows)"
proof (induction rows arbitrary: acc)
  case Nil
  then show ?case by simp
next
  case (Cons r rows)
  then have "scanRows d r (zero_struct ty) = (Return None, scanned d ty r)"
    by (simp add: scansCleanly_def scanned_def prod_eq_iff)
  then show ?case using Cons by simp
qed

lemma scanAll_appends: "take (length acc) (snd (scanAll d ty rows acc)) = acc"
proof (induction rows arbitrary: acc)
  case Nil
  then show ?case by simp
next
  case (Cons r rows)
  obtain res s where rs: "scanRows d r (zero_struct ty) = (res, s)" by (cases "scanRows d r (zero_struct ty)")
  show ?case
  proof (cases "res = Return None")
    case True
    have "take (length acc) (take (length (acc @ [s])) (snd (scanAll d ty rows (acc @ [s])))) = take (length acc) (acc @ [s])"
      using Cons.IH [of "acc @ [s]"] by simp
    then show ?thesis using rs True by (simp add: min_def)
  next
    case False
    then show ?thesis using rs by (auto split: outcome.splits option.splits)
  qed
qed

text \<open>
  Claim C7, amended. When the statement of a \<^verbatim>\<open>FindAll\<close> is prepared and executed
  and every row scans without error, the call succeeds and the slice is its former content
  followed by one scanned struct per result row, in result order: its length is the former
  length plus the number of rows (the number of rows when the slice started empty). On
  every path the former content of the slice stays in front.
\<close>

theorem FindAll_appends_rows:
  assumes "list_all (scansCleanly d ty) rows"
  shows "fst (FindAll d mk None (Inr rows) ty sl w) = Return None
       \<and> fst (snd (FindAll d mk None (Inr rows) ty sl w)) = sl @ map (scanned d ty) rows
       \<and> length (fst (snd (FindAll d mk None (Inr rows) ty sl w))) = length sl + length rows
       \<and> take (length sl) (fst (snd (FindAll d mk pres qres ty sl w))) = sl"
proof -
  have a: "take (length sl) (fst (snd (FindAll d mk pres qres ty sl w))) = sl"
    by (cases pres; cases qres)
       (simp_all add: FindAll_def doQueryRows_def Prepare_def Let_def case_prod_beta scanAll_appends)
  show ?thesis using assms a
    by (simp add: FindAll_def doQueryRows_def Prepare_def Let_def case_prod_beta scanAll_clean)
qed

lemma Split_id_name: "Split ''id'' ''___'' = [''id'']" "Split ''name'' ''___'' = [''name'']"
  by (simp_all add: Split_def)

lemma oneRow_scan:
  "scanRows okDialect (Inr [(''id'', Some (DInt 3)), (''name'', Some (DBytes ''b''))]) (zero_struct personType)
    = (Return None, [(''Id'', VInt64 3), (''Name'', VString ''b''), (''Address'', VStructPtr addressType None),
        (''Updated'', VTime 0), (''Created'', VTime 0)])"
  by (simp add: scanRows_def scanColumn_def Split_id_name snakeToUpperCamel_def upper_def
        zero_struct_def personType_def FieldByName_def okDialect_def sampleDialect_def sampleSet_def)

theorem FindAll_appends_rows_witness:
  "list_all (scansCleanly okDialect personType) oneRow
   \<and> fst (snd (FindAll okDialect sampleModel None (Inr oneRow) personType [] New))
      = [[(''Id'', VInt64 3), (''Name'', VString ''b''), (''Address'', VStructPtr addressType None),
        (''Updated'', VTime 0), (''Created'', VTime 0)]]"
proof -
  have c: "list_all (scansCleanly okDialect personType) oneRow"
    by (simp add: oneRow_def scansCleanly_def oneRow_scan)
  show ?thesis
    using FindAll_appends_rows [OF c, of sampleModel "[]" New None "Inr []"] c
    by (simp add: oneRow_def scanned_def oneRow_scan)
qed

text \<open>
  Claim C7 as stated fails when the caller's slice is not empty: with one element in the
  slice and one result row, the resulting slice has two elements.
\<close>

theorem FindAll_length_counterexample:
  "length (fst (snd (FindAll okDialect sampleModel None (Inr oneRow) personType [samplePerson] New)))
     \<noteq> length oneRow"
proof -
  have c: "list_all (scansCleanly okDialect personType) oneRow"
    by (simp add: oneRow_def scansCleanly_def oneRow_scan)
  have "length (fst (snd (FindAll okDialect sampleModel None (Inr oneRow) personType [samplePerson] New)))
      = length [samplePerson] + length oneRow"
    using scanAll_clean [OF c, of "[samplePerson]"]
    by (simp add: FindAll_def doQueryRows_def Prepare_def Let_def case_prod_beta)
  then show ?thesis by simp
qed

section \<open>Scanning columns\<close>

lemma FieldByName_Set_field_same:
  "FieldByName s n = Some x \<Longrightarrow> FieldByName (Set_field n v s) n = Some v"
  by (induction s) (auto simp: FieldByName_def split: if_splits)

lemma FieldByName_Set_field_other:
  "k \<noteq> n \<Longrightarrow> FieldByName (Set_field n v s) k = FieldByName s k"
  by (induction s) (auto simp: FieldByName_def)

lemma scanColumn_null: "scanColumn d (key, None) s = (Return None, s)"
  by (simp add: scanColumn_def)

lemma scanColumns_drop_null:
  "scanColumns d cols s = scanColumns d (filter (\<lambda>c. snd c \<noteq> None) cols) s"
proof (induction cols arbitrary: s)
  case Nil
  then show ?case by simp
next
  case (Cons c cols)
  show ?case
  proof (cases "snd c")
    case None
    then have "scanColumn d c s = (Return None, s)"
      using scanColumn_null [of d "fst c" s] by (cases c) simp
    then show ?thesis using None Cons by simp
  next
    case (Some v)
    then show ?thesis using Cons by (simp split: prod.splits outcome.splits option.splits)
  qed
qed

text \<open>
  Claim C8, amended. A column with a value whose name splits at \<^verbatim>\<open>___\<close> into exactly
  two parts, the first naming a field of the struct that is a pointer to a struct and the
  second naming a field of that struct: the nested struct is allocated if the pointer was
  nil, the value converted by the dialect is stored in the named field of the nested
  struct, and no other field of the struct changes. A column whose value is SQL NULL
  changes nothing, and a row scans as it does without its NULL columns.
\<close>

theorem scanColumn_routes_join_column:
  assumes "Split key ''___'' = [p0, p1]"
    and "FieldByName s (snakeToUpperCamel p0) = Some (VStructPtr ty ptr)"
    and "sub = (case ptr of None \<Rightarrow> zero_struct ty | Some x \<Rightarrow> x)"
    and "FieldByName sub (snakeToUpperCamel p1) = Some old"
    and "setModelValue d v old = Inr new"
  shows "scanColumn d (key, Some v) s
           = (Return None,
              Set_field (snakeToUpperCamel p0)
                (VStructPtr ty (Some (Set_field (snakeToUpperCamel p1) new sub))) s)
       \<and> FieldByName (snd (scanColumn d (key, Some v) s)) (snakeToUpperCamel p0)
           = Some (VStructPtr ty (Some (Set_field (snakeToUpperCamel p1) new sub)))
       \<and> FieldByName (Set_field (snakeToUpperCamel p1) new sub) (snakeToUpperCamel p1) = Some new
       \<and> (\<forall>n. n \<noteq> snakeToUpperCamel p0 \<longrightarrow>
             FieldByName (snd (scanColumn d (key, Some v) s)) n = FieldByName s n)
       \<and> scanColumn d (key', None) s' = (Return None, s')
       \<and> scanRows d (Inr cols) s' = scanRows d (Inr (filter (\<lambda>c. snd c \<noteq> None) cols)) s'"
proof -
  have r: "scanColumn d (key, Some v) s
           = (Return None,
              Set_field (snakeToUpperCamel p0)
                (VStructPtr ty (Some (Set_field (snakeToUpperCamel p1) new sub))) s)"
    using assms by (simp add: scanColumn_def Let_def)
  have n: "scanRows d (Inr cols) s' = scanRows d (Inr (filter (\<lambda>c. snd c \<noteq> None) cols)) s'"
    using scanColumns_drop_null [of d cols s'] by (simp add: scanRows_def)
  show ?thesis
    using r n assms(2,4)
    by (simp add: FieldByName_Set_field_same FieldByName_Set_field_other scanColumn_null)
qed

lemma Split_address_city: "Split ''address___city'' ''___'' = [''address'', ''city'']"
  by (simp add: Split_def)

lemma camel_address_city:
  "snakeToUpperCamel ''address'' = ''Address''" "snakeToUpperCamel ''city'' = ''City''"
  by (simp_all add: snakeToUpperCamel_def upper_def)

theorem scanColumn_routes_join_column_witness:
  "Split ''address___city'' ''___'' = [''address'', ''city'']
   \<and> FieldByName samplePerson (snakeToUpperCamel ''address'') = Some (VStructPtr addressType None)
   \<and> FieldByName (zero_struct addressType) (snakeToUpperCamel ''city'') = Some (VString [])
   \<and> setModelValue okDialect (DBytes ''Paris'') (VString []) = Inr (VString ''Paris'')
   \<and> FieldByName (snd (scanColumn okDialect (''address___city'', Some (DBytes ''Paris'')) samplePerson))
         ''Address''
       = Some (VStructPtr addressType (Some [(''City'', VString ''Paris''), (''Zip'', VInt64 0)]))"
proof -
  have a: "FieldByName samplePerson (snakeToUpperCamel ''address'') = Some (VStructPtr addressType None)"
    by (simp add: camel_address_city samplePerson_def FieldByName_def)
  have z: "zero_struct addressType = (case None of None \<Rightarrow> zero_struct addressType | Some x \<Rightarrow> x)"
    by simp
  have c: "FieldByName (zero_struct addressType) (snakeToUpperCamel ''city'') = Some (VString [])"
    by (simp add: camel_address_city zero_struct_def addressType_def FieldByName_def)
  have m: "setModelValue okDialect (DBytes ''Paris'') (VString []) = Inr (VString ''Paris'')"
    by (simp add: okDialect_def sampleDialect_def sampleSet_def)
  have t: "FieldByName (snd (scanColumn okDialect (''address___city'', Some (DBytes ''Paris'')) samplePerson))
             (snakeToUpperCamel ''address'')
           = Some (VStructPtr addressType
               (Some (Set_field (snakeToUpperCamel ''city'') (VString ''Paris'') (zero_struct addressType))))"
    using scanColumn_routes_join_column [OF Split_address_city a z c m, of "[]" "[]" "[]",
        THEN conjunct2, THEN conjunct1] .
  have u: "Set_field ''City'' (VString ''Paris'') (zero_struct addressType)
           = [(''City'', VString ''Paris''), (''Zip'', VInt64 0)]"
    by (simp add: zero_struct_def addressType_def)
  show ?thesis
    using t Split_address_city a c m by (simp add: u camel_address_city)
qed

text \<open>
  Claim C8 as stated fails for a column name that contains the separator twice: it is
  looked up as a plain column, and neither of the nested structs that a split at the first
  or at the last separator would name is allocated or written.
\<close>

theorem two_separators_not_routed:
  "Split ''address___city___x'' ''___'' = [''address'', ''city'', ''x'']
   \<and> scanRows okDialect (Inr [(''address___city___x'', Some (DBytes ''Paris''))]) joinedStruct
       = (Return None, joinedStruct)"
  by (simp add: Split_def scanRows_def scanColumn_def snakeToUpperCamel_def upper_def
        joinedStruct_def FieldByName_def)

text \<open>
  Claim C9. A column of the form \<^verbatim>\<open>parent___child\<close> whose parent names no field of the
  struct is not ignored: \<^verbatim>\<open>FieldByName\<close> gives the zero \<^verbatim>\<open>Value\<close>, on which
  \<^verbatim>\<open>IsNil\<close> panics, and the \<^verbatim>\<open>Find\<close> that scans the row panics. Plain columns
  that name no field are ignored.
\<close>

theorem unknown_parent_panics:
  "fst (Find okDialect sampleModel None (Inr [Inr [(''nosuch___city'', Some (DBytes ''Paris''))]])
         samplePerson New)
     = Panic (ReflectPanic ''call of reflect.Value.IsNil on zero Value'')"
  by (simp add: Find_def findQuery_def doQueryRow_def Prepare_def Let_def case_prod_beta
        pkZero_def sampleModel_def samplePerson_def FieldByName_def sampleField_def
        Split_def scanRows_def scanColumn_def snakeToUpperCamel_def upper_def)

lemma scanColumn_ignores_unknown:
  assumes "length (Split key ''___'') \<noteq> 2" and "FieldByName s (snakeToUpperCamel key) = None"
  shows "scanColumn d (key, v) s = (Return None, s)"
proof (cases v)
  case None
  then show ?thesis by (simp add: scanColumn_def)
next
  case (Some x)
  then show ?thesis using assms
    by (auto simp: scanColumn_def split: list.splits)
qed

text \<open>
  When the parent names a pointer field and the child names no field of the nested struct,
  the nested struct is allocated and nothing else is written.
\<close>

lemma unknown_child_allocates:
  "scanRows okDialect (Inr [(''address___nosuch'', Some (DBytes ''Paris''))]) samplePerson
     = (Return None,
        [(''Id'', VInt64 0), (''Name'', VString ''a''),
         (''Address'', VStructPtr addressType (Some [(''City'', VString []), (''Zip'', VInt64 0)])),
         (''Updated'', VTime 0), (''Created'', VTime 0)])"
  by (simp add: Split_def scanRows_def scanColumn_def snakeToUpperCamel_def upper_def
        samplePerson_def addressType_def zero_struct_def FieldByName_def)

section \<open>Structs without a primary key\<close>

lemma mergePkCondition_no_pk:
  "pk m = None \<Longrightarrow> mergePkCondition d (c\<lparr>model := Some m\<rparr>) = c\<lparr>model := Some m\<rparr>"
  by (simp add: mergePkCondition_def pkZero_def)

lemma Update_validated:
  "validationError vld w = None \<Longrightarrow>
   Update d mk vld s w =
     (let wv = afterValidation vld w;
          w2 = set_cur (mergePkCondition d)
                 (set_cur (\<lambda>c. c\<lparr>model := Some (mk s True (omitFields (cur wv)))\<rparr>) wv)
      in if condition (cur w2) = None
         then (Panic (PanicMsg ''Can not update without condition''), w2, validationEvents vld)
         else (Return (fst (update' d w2)), snd (update' d w2),
               validationEvents vld @ [EvUpdate (criteria (qbs w2)) (cur w2) (fst (update' d w2))]))"
  by (cases vld)
     (simp_all add: Update_def validationError_def afterValidation_def validationEvents_def
        Let_def case_prod_beta)

lemma ptr_set_cur: "criteria (qbs (set_cur f w)) = criteria (qbs w)"
  by (simp add: set_cur_def)

text \<open>
  Claim C3, amended. On a struct with no primary-key field: a \<^verbatim>\<open>Save\<close> whose
  validation (if any) passes panics with "no primary key field", before any statement of
  the dialect, leaving the struct and the session as validation left them.
  \<^verbatim>\<open>Update\<close> and \<^verbatim>\<open>Delete\<close> have no such check: they panic, with "Can not update
  without condition" and "Can not delete without condition", when the session has no
  user condition, and otherwise run the dialect's statement under the user's condition.
\<close>

theorem no_primary_key:
  "(validationError vld w = None \<longrightarrow>
      pk (mk s True (omitFields (cur (afterValidation vld w)))) = None \<longrightarrow>
      Save d mk vld now s w
        = (Panic (PanicMsg ''no primary key field''), s, afterValidation vld w, validationEvents vld)
      \<and> (condition (cur (afterValidation vld w)) = None \<longrightarrow>
           fst (Update d mk vld s w) = Panic (PanicMsg ''Can not update without condition'')
           \<and> snd (snd (Update d mk vld s w)) = validationEvents vld)
      \<and> (condition (cur (afterValidation vld w)) \<noteq> None \<longrightarrow>
           (\<exists>r. fst (Update d mk vld s w) = Return r
              \<and> snd (snd (Update d mk vld s w))
                  = validationEvents vld @
                    [EvUpdate (criteria (qbs (afterValidation vld w)))
                       ((cur (afterValidation vld w))
                          \<lparr>model := Some (mk s True (omitFields (cur (afterValidation vld w))))\<rparr>) r])))
   \<and> (pk (mk s True (omitFields (cur w))) = None \<longrightarrow>
        (condition (cur w) = None \<longrightarrow>
           fst (Delete d mk s w) = Panic (PanicMsg ''Can not delete without condition'')
           \<and> snd (snd (Delete d mk s w)) = [])
        \<and> (condition (cur w) \<noteq> None \<longrightarrow>
           (\<exists>r. fst (Delete d mk s w) = Return r
              \<and> snd (snd (Delete d mk s w))
                  = [EvDelete (criteria (qbs w))
                       ((cur w)\<lparr>model := Some (mk s True (omitFields (cur w)))\<rparr>) r])))"
proof -
  have sv: "validationError vld w = None \<Longrightarrow>
      pk (mk s True (omitFields (cur (afterValidation vld w)))) = None \<Longrightarrow>
      Save d mk vld now s w
        = (Panic (PanicMsg ''no primary key field''), s, afterValidation vld w, validationEvents vld)"
    by (simp add: Save_validated saveModel_def)
  have up: "validationError vld w = None \<Longrightarrow>
      pk (mk s True (omitFields (cur (afterValidation vld w)))) = None \<Longrightarrow>
      (condition (cur (afterValidation vld w)) = None \<longrightarrow>
           fst (Update d mk vld s w) = Panic (PanicMsg ''Can not update without condition'')
           \<and> snd (snd (Update d mk vld s w)) = validationEvents vld)
      \<and> (condition (cur (afterValidation vld w)) \<noteq> None \<longrightarrow>
           (\<exists>r. fst (Update d mk vld s w) = Return r
              \<and> snd (snd (Update d mk vld s w))
                  = validationEvents vld @
                    [EvUpdate (criteria (qbs (afterValidation vld w)))
                       ((cur (afterValidation vld w))
                          \<lparr>model := Some (mk s True (omitFields (cur (afterValidation vld w))))\<rparr>) r]))"
    by (simp add: Update_validated Let_def cur_set_cur ptr_set_cur mergePkCondition_no_pk)
  have de: "pk (mk s True (omitFields (cur w))) = None \<Longrightarrow>
        (condition (cur w) = None \<longrightarrow>
           fst (Delete d mk s w) = Panic (PanicMsg ''Can not delete without condition'')
           \<and> snd (snd (Delete d mk s w)) = [])
        \<and> (condition (cur w) \<noteq> None \<longrightarrow>
           (\<exists>r. fst (Delete d mk s w) = Return r
              \<and> snd (snd (Delete d mk s w))
                  = [EvDelete (criteria (qbs w))
                       ((cur w)\<lparr>model := Some (mk s True (omitFields (cur w)))\<rparr>) r]))"
    by (simp add: Delete_def Let_def case_prod_beta cur_set_cur ptr_set_cur mergePkCondition_no_pk)
  show ?thesis using sv up de by blast
qed

lemma namedOnly_model: "pk (sampleModel namedOnly b omit) = None"
  by (simp add: sampleModel_def namedOnly_def FieldByName_def)

lemma cur_New: "cur New = new_criteria"
  by (simp add: New_def Reset_cur)

lemma fst_sampleExec: "fst (sampleExec stmt res w) = res"
  by (simp add: sampleExec_def)

lemma okDialect_statements:
  "insert' okDialect = sampleExec ''INSERT'' (7, None)"
  "update' okDialect = sampleExec ''UPDATE'' (1, None)"
  "delete' okDialect = sampleExec ''DELETE'' (1, None)"
  by (simp_all add: okDialect_def sampleDialect_def)

lemma ptr_filteredSession: "criteria (qbs filteredSession) = 0"
  by (simp add: filteredSession_def Where_def New_def Reset_def ptr_set_cur)

theorem no_primary_key_witness:
  "validationError None New = None
   \<and> pk (sampleModel namedOnly True (omitFields (cur (afterValidation None New)))) = None
   \<and> condition (cur (afterValidation None New)) = None
   \<and> condition (cur (afterValidation None filteredSession)) \<noteq> None
   \<and> Save okDialect sampleModel None 99 namedOnly New
       = (Panic (PanicMsg ''no primary key field''), namedOnly, New, [])
   \<and> fst (Update okDialect sampleModel None namedOnly New)
       = Panic (PanicMsg ''Can not update without condition'')
   \<and> fst (Delete okDialect sampleModel namedOnly New)
       = Panic (PanicMsg ''Can not delete without condition'')
   \<and> \<not> panicked (fst (Update okDialect sampleModel None namedOnly filteredSession))
   \<and> \<not> panicked (fst (Delete okDialect sampleModel namedOnly filteredSession))"
proof -
  have v: "validationError None New = None" "validationError None filteredSession = None"
    by (simp_all add: validationError_def)
  have a: "afterValidation None New = New" "afterValidation None filteredSession = filteredSession"
    by (simp_all add: afterValidation_def)
  have c: "condition (cur New) = None" "condition (cur filteredSession) \<noteq> None"
    by (simp_all add: cur_New cur_filteredSession new_criteria_def)
  have e: "validationEvents None = []" by (simp add: validationEvents_def)
  show ?thesis
    using no_primary_key [of None New sampleModel namedOnly okDialect 99]
      no_primary_key [of None filteredSession sampleModel namedOnly okDialect 99]
      v c
    by (auto simp: a e namedOnly_model panicked_def)
qed

text \<open>
  Claim C3 as stated fails for \<^verbatim>\<open>Update\<close> on a session with a user condition: the
  struct has no primary key, nothing panics, and the dialect's update runs under the
  user's condition.
\<close>

theorem update_without_primary_key_runs:
  "pk (sampleModel namedOnly True (omitFields (cur filteredSession))) = None
   \<and> fst (Update okDialect sampleModel None namedOnly filteredSession) = Return (1, None)
   \<and> snd (snd (Update okDialect sampleModel None namedOnly filteredSession))
       = [EvUpdate 0
            (new_criteria\<lparr>model := Some (sampleModel namedOnly True []),
                           condition := Some (Cond ''name = ?'' [VString ''a''])\<rparr>) (1, None)]"
proof -
  have v: "validationError None filteredSession = None" by (simp add: validationError_def)
  have c: "omitFields (cur filteredSession) = []"
    by (simp add: cur_filteredSession new_criteria_def)
  have m: "mergePkCondition okDialect ((cur filteredSession)\<lparr>model := Some (sampleModel namedOnly True [])\<rparr>)
           = (cur filteredSession)\<lparr>model := Some (sampleModel namedOnly True [])\<rparr>"
    by (rule mergePkCondition_no_pk) (rule namedOnly_model)
  show ?thesis
    using Update_validated [OF v, of okDialect sampleModel namedOnly]
    by (simp add: Let_def cur_set_cur ptr_set_cur afterValidation_def validationEvents_def
          namedOnly_model c m okDialect_statements fst_sampleExec ptr_filteredSession)
       (simp add: cur_filteredSession new_criteria_def)
qed

section \<open>Save\<close>

lemma pk_stamp: "pk (stamp m i now) = pk m"
  by (cases i) (simp_all add: stamp_def)

lemma pkZero_stamp: "pkZero (stamp m i now) = pkZero m"
  by (simp add: pkZero_def pk_stamp)

lemma timeFiledIn_less: "timeFiledIn fs n = Some j \<Longrightarrow> j < length fs"
  by (induction fs arbitrary: j) (auto split: if_splits)

lemma stamp_value:
  "timeFiled m n = Some j \<Longrightarrow> value' (fields' (stamp m (Some j) now) ! j) = VTime now"
  by (simp add: stamp_def timeFiled_def timeFiledIn_less)

lemma events_saveFinish:
  "snd (snd (snd (saveFinish m u c i ident now a err s w ev))) = ev"
  by (simp add: saveFinish_def split: option.splits)

lemma SetTime_keeps:
  assumes "SetTime n' t s1 = Some s2" and "FieldByName s1 n = Some (VInt64 i)"
  shows "FieldByName s2 n = Some (VInt64 i)"
proof (cases "n' = n")
  case True
  then show ?thesis using assms by (simp add: SetTime_def)
next
  case False
  then show ?thesis using assms
    by (auto simp: SetTime_def FieldByName_Set_field_other split: option.splits govalue.splits)
qed

lemma writeTime_keeps:
  assumes "writeTime m idx t s1 = Some s2" and "FieldByName s1 n = Some (VInt64 i)"
  shows "FieldByName s2 n = Some (VInt64 i)"
  using assms by (cases idx) (auto simp: writeTime_def dest: SetTime_keeps)

lemma saveFinish_writes_id:
  assumes "pk m = Some f" and "value' f = VInt64 x" and "ident \<noteq> 0"
    and "FieldByName s (camelName f) = Some (VInt64 y)"
  shows "FieldByName (fst (snd (saveFinish m u c i ident now a None s w ev))) (camelName f)
           = Some (VInt64 ident)"
proof -
  let ?s1 = "Set_field (camelName f) (VInt64 ident) s"
  have w1: "writeId m ident s = Some ?s1"
    using assms by (simp add: writeId_def SetInt_def)
  have f1: "FieldByName ?s1 (camelName f) = Some (VInt64 ident)"
    using assms(4) by (rule FieldByName_Set_field_same)
  show ?thesis
  proof (cases "writeTime m u now ?s1")
    case None
    then show ?thesis using w1 f1 by (simp add: saveFinish_def)
  next
    case (Some s2)
    then have f2: "FieldByName s2 (camelName f) = Some (VInt64 ident)"
      using f1 by (rule writeTime_keeps)
    show ?thesis
    proof (cases "if i then writeTime m c now s2 else Some s2")
      case None
      then show ?thesis using w1 Some f2 by (simp add: saveFinish_def)
    next
      case (Some s3)
      then have "FieldByName s3 (camelName f) = Some (VInt64 ident)"
        using f2 by (auto split: if_splits dest: writeTime_keeps)
      then show ?thesis using w1 \<open>writeTime m u now ?s1 = Some s2\<close> Some
        by (simp add: saveFinish_def)
    qed
  qed
qed

lemma Save_zero_pk:
  assumes "validationError vld w = None"
    and "wv = afterValidation vld w"
    and "m0 = mk s True (omitFields (cur wv))"
    and "pk m0 = Some f"
    and "m1 = stamp m0 (timeFiled m0 ''updated'') now"
    and "m2 = stamp m1 (timeFiled m1 ''created'') now"
    and "pkZero m0"
    and "w2 = set_cur (\<lambda>c. c\<lparr>model := Some m2\<rparr>) (set_cur (\<lambda>c. c\<lparr>model := Some m1\<rparr>) wv)"
  shows "Save d mk vld now s w
         = saveFinish m2 (timeFiled m0 ''updated'') (timeFiled m1 ''created'') True
             (fst (fst (insert' d w2))) now
             (if snd (fst (insert' d w2)) = None then 1 else 0) (snd (fst (insert' d w2))) s
             (snd (insert' d w2))
             (validationEvents vld @ [EvInsert (criteria (qbs wv)) ((cur wv)\<lparr>model := Some m2\<rparr>)
                (fst (insert' d w2))])"
  using assms
  by (simp add: Save_validated saveModel_def Let_def case_prod_beta pkZero_stamp cur_set_cur ptr_set_cur)

lemma Save_nonzero_pk:
  assumes "validationError vld w = None"
    and "wv = afterValidation vld w"
    and "m0 = mk s True (omitFields (cur wv))"
    and "pk m0 = Some f"
    and "m1 = stamp m0 (timeFiled m0 ''updated'') now"
    and "m2 = stamp m1 (timeFiled m1 ''created'') now"
    and "\<not> pkZero m0"
    and "w2 = set_cur (mergePkCondition d) (set_cur (\<lambda>c. c\<lparr>model := Some m1\<rparr>) wv)"
    and "w3 = snd (update' d w2)"
    and "w4 = set_cur (\<lambda>c. c\<lparr>model := Some m2\<rparr>) (w3\<lparr>qbs := (qbs w3)\<lparr>criteria := criteria (qbs wv)\<rparr>\<rparr>)"
  shows "snd (snd (snd (Save d mk vld now s w)))
         = validationEvents vld @
           EvUpdate (criteria (qbs wv)) (mergePkCondition d ((cur wv)\<lparr>model := Some m1\<rparr>)) (fst (update' d w2))
           # (if fst (fst (update' d w2)) = 0 \<and> snd (fst (update' d w2)) = None
              then [EvInsert (criteria (qbs wv)) (cur w4) (fst (insert' d w4))] else [])"
  using assms
  by (simp add: Save_validated saveModel_def Let_def case_prod_beta pkZero_stamp cur_set_cur
        ptr_set_cur events_saveFinish prod_eq_iff)

text \<open>
  Claim C1, amended. Take a \<^verbatim>\<open>Save\<close> on a struct with a primary-key field whose
  validation, if the struct has one, passes. When the primary key is zero-valued, the one
  statement of the dialect is an insert, on the session's criteria with the stamped model;
  when that insert reports no error and a non-zero id, and the key is int64-typed, the id
  is in the key field of the struct afterwards. When the primary key is non-zero, the
  first statement is an update under the merged primary-key condition, and an insert
  follows exactly when the update affected zero rows and reported no error: the insert
  runs on the criteria object that the session pointed to before the update, with the
  created timestamp set in its model. After an update that reports an error, or affects
  rows, nothing follows.
\<close>

theorem Save_inserts_or_updates:
  assumes "validationError vld w = None"
    and "wv = afterValidation vld w"
    and "m0 = mk s True (omitFields (cur wv))"
    and "pk m0 = Some f"
    and "m1 = stamp m0 (timeFiled m0 ''updated'') now"
    and "m2 = stamp m1 (timeFiled m1 ''created'') now"
    and "ev = snd (snd (snd (Save d mk vld now s w)))"
    and "s' = fst (snd (Save d mk vld now s w))"
  shows
    "(pkZero m0 \<longrightarrow>
        (\<exists>r. ev = validationEvents vld @
                   [EvInsert (criteria (qbs wv)) ((cur wv)\<lparr>model := Some m2\<rparr>) r]
           \<and> (snd r = None \<and> fst r \<noteq> 0 \<and> (\<exists>x. value' f = VInt64 x)
                \<and> (\<exists>y. FieldByName s (camelName f) = Some (VInt64 y))
              \<longrightarrow> FieldByName s' (camelName f) = Some (VInt64 (fst r)))))
   \<and> (\<not> pkZero m0 \<longrightarrow>
        (\<exists>affected err rest.
           ev = validationEvents vld @
                EvUpdate (criteria (qbs wv)) (mergePkCondition d ((cur wv)\<lparr>model := Some m1\<rparr>))
                  (affected, err) # rest
           \<and> (affected = 0 \<and> err = None \<longrightarrow>
                (\<exists>c r. rest = [EvInsert (criteria (qbs wv)) c r] \<and> model c = Some m2))
           \<and> (affected \<noteq> 0 \<or> err \<noteq> None \<longrightarrow> rest = [])))
   \<and> (\<forall>j. timeFiled m1 ''created'' = Some j \<longrightarrow> value' (fields' m2 ! j) = VTime now)"
proof -
  define w2 where "w2 = set_cur (\<lambda>c. c\<lparr>model := Some m2\<rparr>) (set_cur (\<lambda>c. c\<lparr>model := Some m1\<rparr>) wv)"
  define u2 where "u2 = set_cur (mergePkCondition d) (set_cur (\<lambda>c. c\<lparr>model := Some m1\<rparr>) wv)"
  define u4 where "u4 = set_cur (\<lambda>c. c\<lparr>model := Some m2\<rparr>)
                          ((snd (update' d u2))\<lparr>qbs := (qbs (snd (update' d u2)))\<lparr>criteria := criteria (qbs wv)\<rparr>\<rparr>)"
  have pk2: "pk m2 = Some f" using assms(4,5,6) by (simp add: pk_stamp)
  have zero: "pkZero m0 \<longrightarrow>
        (\<exists>r. ev = validationEvents vld @
                   [EvInsert (criteria (qbs wv)) ((cur wv)\<lparr>model := Some m2\<rparr>) r]
           \<and> (snd r = None \<and> fst r \<noteq> 0 \<and> (\<exists>x. value' f = VInt64 x)
                \<and> (\<exists>y. FieldByName s (camelName f) = Some (VInt64 y))
              \<longrightarrow> FieldByName s' (camelName f) = Some (VInt64 (fst r))))"
  proof
    assume z: "pkZero m0"
    note S = Save_zero_pk [where mk = mk and s = s and d = d, OF assms(1-6) z w2_def]
    have e: "ev = validationEvents vld @
                   [EvInsert (criteria (qbs wv)) ((cur wv)\<lparr>model := Some m2\<rparr>) (fst (insert' d w2))]"
      using S assms(7) by (simp add: events_saveFinish)
    have i: "snd (fst (insert' d w2)) = None \<and> fst (fst (insert' d w2)) \<noteq> 0
                \<and> (\<exists>x. value' f = VInt64 x)
                \<and> (\<exists>y. FieldByName s (camelName f) = Some (VInt64 y))
              \<longrightarrow> FieldByName s' (camelName f) = Some (VInt64 (fst (fst (insert' d w2))))"
      using S assms(8) pk2 by (auto simp: saveFinish_writes_id)
    show "\<exists>r. ev = validationEvents vld @
                   [EvInsert (criteria (qbs wv)) ((cur wv)\<lparr>model := Some m2\<rparr>) r]
           \<and> (snd r = None \<and> fst r \<noteq> 0 \<and> (\<exists>x. value' f = VInt64 x)
                \<and> (\<exists>y. FieldByName s (camelName f) = Some (VInt64 y))
              \<longrightarrow> FieldByName s' (camelName f) = Some (VInt64 (fst r)))"
      using e i by blast
  qed
  have nonzero: "\<not> pkZero m0 \<longrightarrow>
        (\<exists>affected err rest.
           ev = validationEvents vld @
                EvUpdate (criteria (qbs wv)) (mergePkCondition d ((cur wv)\<lparr>model := Some m1\<rparr>))
                  (affected, err) # rest
           \<and> (affected = 0 \<and> err = None \<longrightarrow>
                (\<exists>c r. rest = [EvInsert (criteria (qbs wv)) c r] \<and> model c = Some m2))
           \<and> (affected \<noteq> 0 \<or> err \<noteq> None \<longrightarrow> rest = []))"
  proof
    assume nz: "\<not> pkZero m0"
    note S = Save_nonzero_pk [where mk = mk and s = s and d = d, OF assms(1-6) nz u2_def refl u4_def]
    have m: "model (cur u4) = Some m2" by (simp add: u4_def cur_set_cur)
    let ?a = "fst (fst (update' d u2))" and ?e = "snd (fst (update' d u2))"
    let ?rest = "if ?a = 0 \<and> ?e = None
                 then [EvInsert (criteria (qbs wv)) (cur u4) (fst (insert' d u4))] else []"
    have e: "ev = validationEvents vld @
                EvUpdate (criteria (qbs wv)) (mergePkCondition d ((cur wv)\<lparr>model := Some m1\<rparr>))
                  (?a, ?e) # ?rest"
      using S assms(7) by simp
    have r1: "?a = 0 \<and> ?e = None \<longrightarrow>
                (\<exists>c r. ?rest = [EvInsert (criteria (qbs wv)) c r] \<and> model c = Some m2)"
      using m by auto
    have r2: "?a \<noteq> 0 \<or> ?e \<noteq> None \<longrightarrow> ?rest = []" by auto
    show "\<exists>affected err rest.
           ev = validationEvents vld @
                EvUpdate (criteria (qbs wv)) (mergePkCondition d ((cur wv)\<lparr>model := Some m1\<rparr>))
                  (affected, err) # rest
           \<and> (affected = 0 \<and> err = None \<longrightarrow>
                (\<exists>c r. rest = [EvInsert (criteria (qbs wv)) c r] \<and> model c = Some m2))
           \<and> (affected \<noteq> 0 \<or> err \<noteq> None \<longrightarrow> rest = [])"
      using e r1 r2 by blast
  qed
  have created: "\<forall>j. timeFiled m1 ''created'' = Some j \<longrightarrow> value' (fields' m2 ! j) = VTime now"
    using assms(6) by (auto simp: stamp_value)
  show ?thesis using zero nonzero created by blast
qed

lemma samplePerson_model:
  "pk (sampleModel samplePerson b omit) = Some \<lparr>name = ''id'', camelName = ''Id'', value' = VInt64 0\<rparr>"
  by (simp add: sampleModel_def samplePerson_def FieldByName_def sampleField_def lower_def)

lemma Save_sample_runs:
  "FieldByName (fst (snd (Save okDialect sampleModel None 99 samplePerson New))) ''Id'' = Some (VInt64 7)"
  "map statement (snd (snd (snd (Save missingRowDialect sampleModel None 99 savedPerson New))))
     = [''UPDATE'', ''INSERT'']"
  "map statement (snd (snd (snd (Save failingUpdateDialect sampleModel None 99 savedPerson New))))
     = [''UPDATE'']"
  "map statement (snd (snd (snd (Save okDialect sampleModel None 99 savedPerson New))))
     = [''UPDATE'']"
  by code_simp+

theorem Save_inserts_or_updates_witness:
  "validationError None New = None
   \<and> pk (sampleModel samplePerson True (omitFields (cur (afterValidation None New))))
       = Some \<lparr>name = ''id'', camelName = ''Id'', value' = VInt64 0\<rparr>
   \<and> pkZero (sampleModel samplePerson True (omitFields (cur (afterValidation None New))))
   \<and> \<not> pkZero (sampleModel savedPerson True [])
   \<and> map statement (snd (snd (snd (Save okDialect sampleModel None 99 samplePerson New)))) = [''INSERT'']
   \<and> FieldByName (fst (snd (Save okDialect sampleModel None 99 samplePerson New))) ''Id''
       = Some (VInt64 7)
   \<and> map statement (snd (snd (snd (Save missingRowDialect sampleModel None 99 savedPerson New))))
       = [''UPDATE'', ''INSERT'']
   \<and> map statement (snd (snd (snd (Save failingUpdateDialect sampleModel None 99 savedPerson New))))
       = [''UPDATE'']
   \<and> map statement (snd (snd (snd (Save okDialect sampleModel None 99 savedPerson New))))
       = [''UPDATE'']"
proof -
  have v: "validationError None New = None" by (simp add: validationError_def)
  have p: "pk (sampleModel samplePerson True (omitFields (cur (afterValidation None New))))
       = Some \<lparr>name = ''id'', camelName = ''Id'', value' = VInt64 0\<rparr>"
    by (rule samplePerson_model)
  have z: "pkZero (sampleModel samplePerson True (omitFields (cur (afterValidation None New))))"
    by (simp add: pkZero_def samplePerson_model)
  have nz: "\<not> pkZero (sampleModel savedPerson True [])"
    by (simp add: pkZero_def savedPerson_model)
  have i: "map statement (snd (snd (snd (Save okDialect sampleModel None 99 samplePerson New)))) = [''INSERT'']"
    using Save_inserts_or_updates [where mk = sampleModel and s = samplePerson and d = okDialect
        and vld = None and w = New and now = 99, OF v refl refl p refl refl refl refl] z
    by (auto simp: validationEvents_def)
  show ?thesis using v p z nz i Save_sample_runs by simp
qed

text \<open>
  Claim C1 as stated fails for a struct whose validation fails: its primary key is
  zero-valued, and \<^verbatim>\<open>Save\<close> returns the validation error without any insert.
\<close>

theorem rejected_Save_does_not_insert:
  "pk (sampleModel samplePerson True (omitFields (cur New))) \<noteq> None
   \<and> pkZero (sampleModel samplePerson True (omitFields (cur New)))
   \<and> Save okDialect sampleModel (Some rejectAll) 99 samplePerson New
       = (Return (0, Some (Err ''invalid'')), samplePerson, New, [EvValidate])"
  by (simp add: pkZero_def samplePerson_model Save_def rejectAll_def)

text \<open>
  What \<^verbatim>\<open>Save\<close> restores before the fallback insert is the pointer: the criteria
  object it points to is the one the primary-key condition was merged into, so the insert
  sees the same condition as the update did.
\<close>

lemma restored_criteria_keeps_pk_condition:
  "map (\<lambda>e. case e of EvInsert p c r \<Rightarrow> (p, condition c) | EvUpdate p c r \<Rightarrow> (p, condition c) | _ \<Rightarrow> (0, None))
     (snd (snd (snd (Save missingRowDialect sampleModel None 99 savedPerson filteredSession))))
   = [(0, Some (CondAnd (Cond ''<id> = ?'' [VInt64 5]) (Cond ''name = ?'' [VString ''a'']))),
      (0, Some (CondAnd (Cond ''<id> = ?'' [VInt64 5]) (Cond ''name = ?'' [VString ''a''])))]"
  by code_simp

end
